theory Spec2Isabelle
  imports Main "HOL-Library.Word" "HOL-Library.Signed_Division"
begin

section \<open>Machine types and the C library\<close>

text \<open>
  The programs are compiled for an LP64 target: \<open>int\<close> has 32 bits, \<open>long\<close> and
  \<open>size_t\<close> have 64. Signed values are read with \<open>sint\<close>, unsigned ones with \<open>unat\<close>.
  A run either finishes or leaves defined behaviour; the second case is a \<open>fault\<close>, and a
  faulting call has no result state.
\<close>

type_synonym cint = "32 word"
type_synonym long = "64 word"
type_synonym size_t = "64 word"

datatype fault =
    DivisionByZero
  | SignedOverflow
  | NullDereference
  | OutOfBounds
  | UseAfterFree
  | DoubleFree
  | UninitialisedRead
  | UncaughtException

text \<open>
  Whether the allocator grants a request is not decided by the program: it is a parameter,
  a predicate on the requested number of bytes. A request above \<open>PTRDIFF_MAX\<close> is never
  granted.
\<close>

type_synonym allocator = "nat \<Rightarrow> bool"

definition PTRDIFF_MAX :: nat where
  "PTRDIFF_MAX = 2 ^ 63 - 1"

definition granted :: "allocator \<Rightarrow> nat \<Rightarrow> bool" where
  "granted alloc n = (n \<le> PTRDIFF_MAX \<and> alloc n)"

definition NL :: char where
  "NL = CHR 0x0A"

definition NUL :: char where
  "NUL = CHR 0x00"

definition isspace :: "char \<Rightarrow> bool" where
  "isspace c = (c = CHR '' '' \<or> (9 \<le> (of_char c :: nat) \<and> (of_char c :: nat) \<le> 13))"

definition isdigit :: "char \<Rightarrow> bool" where
  "isdigit c = (48 \<le> (of_char c :: nat) \<and> (of_char c :: nat) \<le> 57)"

definition digit_value :: "char \<Rightarrow> int" where
  "digit_value c = of_char c - 48"

text \<open>The C string held in a buffer ends before the first NUL byte.\<close>

definition c_str :: "string \<Rightarrow> string" where
  "c_str buf = takeWhile (\<lambda>c. c \<noteq> NUL) buf"

text \<open>
  \<open>strtol(s, NULL, 10)\<close>: white space is skipped, one sign is read, then the longest run
  of decimal digits; a value outside \<open>long\<close> is clamped to \<open>LONG_MAX\<close> or \<open>LONG_MIN\<close>.
  With no digit at that place the result is 0: the end pointer that would tell the two
  apart is \<open>NULL\<close> at every call of these programs.
\<close>

definition LONG_MAX :: int where
  "LONG_MAX = 9223372036854775807"

definition decimal :: "string \<Rightarrow> int" where
  "decimal ds = foldl (\<lambda>a c. 10 * a + digit_value c) 0 ds"

definition strtol :: "string \<Rightarrow> long" where
  "strtol s =
     (let s1 = dropWhile isspace s;
          neg = (s1 \<noteq> [] \<and> hd s1 = CHR ''-'');
          s2 = (if s1 \<noteq> [] \<and> (hd s1 = CHR ''-'' \<or> hd s1 = CHR ''+'') then tl s1 else s1);
          n = decimal (takeWhile isdigit s2)
      in if neg then (if n > LONG_MAX + 1 then word_of_int (- LONG_MAX - 1) else word_of_int (- n))
         else (if n > LONG_MAX then word_of_int LONG_MAX else word_of_int n))"

text \<open>
  \<open>atoi(s)\<close> is \<open>(int) strtol(s, NULL, 10)\<close>, as the C library of the target computes
  it: the low 32 bits of the \<open>long\<close>.
\<close>

definition atoi :: "string \<Rightarrow> cint" where
  "atoi s = scast (strtol s)"

text \<open>
  \<open>strtok_r\<close> called until it returns \<open>NULL\<close>: the maximal runs of characters that are
  not delimiters, in order. No token is empty.
\<close>

function strtok_all :: "string \<Rightarrow> string \<Rightarrow> string list" where
  "strtok_all delim s =
     (let s1 = dropWhile (\<lambda>c. c \<in> set delim) s
      in if s1 = [] then []
         else takeWhile (\<lambda>c. c \<notin> set delim) s1
              # strtok_all delim (drop 1 (dropWhile (\<lambda>c. c \<notin> set delim) s1)))"
  by pat_completeness auto
termination
proof (relation "measure (\<lambda>(delim, s). length s)")
  show "wf (measure (\<lambda>(delim, s). length s))" by simp
next
  fix delim s :: string and s1 :: string
  assume s1: "s1 = dropWhile (\<lambda>c. c \<in> set delim) s" and ne: "s1 \<noteq> []"
  have a: "length (dropWhile (\<lambda>c. c \<notin> set delim) s1) \<le> length s1"
    by (rule length_dropWhile_le)
  have b: "length s1 \<le> length s"
    unfolding s1 by (rule length_dropWhile_le)
  have c: "0 < length s1" using ne by simp
  have d: "length (drop 1 (dropWhile (\<lambda>c. c \<notin> set delim) s1))
      = length (dropWhile (\<lambda>c. c \<notin> set delim) s1) - 1"
    by simp
  have "length (drop 1 (dropWhile (\<lambda>c. c \<notin> set delim) s1)) < length s"
    unfolding d using a b c by arith
  then show "((delim, drop 1 (dropWhile (\<lambda>c. c \<notin> set delim) s1)), (delim, s))
      \<in> measure (\<lambda>(delim, s). length s)"
    by simp
qed

declare strtok_all.simps [simp del]

text \<open>
  \<open>fgets(line, n, stream)\<close> on the unread input: at most \<open>n - 1\<close> characters, stopping
  after a newline; \<open>None\<close> at end of input. The result is what was stored and what is
  left unread.
\<close>

definition fgets :: "nat \<Rightarrow> string \<Rightarrow> (string \<times> string) option" where
  "fgets n s =
     (if s = [] then None
      else let chunk = take (n - 1) s;
               body = takeWhile (\<lambda>c. c \<noteq> NL) chunk;
               stored = (if length body < length chunk then body @ [NL] else body)
           in Some (stored, drop (length stored) s))"

text \<open>The line as the programs use it: cut at the first newline (\<open>strchr\<close>, then NUL).\<close>

definition strip_newline :: "string \<Rightarrow> string" where
  "strip_newline buf = takeWhile (\<lambda>c. c \<noteq> NL) (c_str buf)"

text \<open>\<open>printf("%d")\<close> and \<open>printf("%ld")\<close>: the decimal digits, with a minus sign.\<close>

fun show_nat :: "nat \<Rightarrow> string" where
  "show_nat n =
     (if n < 10 then [''0123456789'' ! n]
      else show_nat (n div 10) @ [''0123456789'' ! (n mod 10)])"

declare show_nat.simps [simp del]

definition show_int :: "int \<Rightarrow> string" where
  "show_int i = (if i < 0 then CHR ''-'' # show_nat (nat (- i)) else show_nat (nat i))"

text \<open>The result of an \<open>int\<close> operation whose mathematical value is \<open>v\<close>.\<close>

definition int_result :: "int \<Rightarrow> fault + cint" where
  "int_result v = (if - (2 ^ 31) \<le> v \<and> v < 2 ^ 31 then Inr (word_of_int v) else Inl SignedOverflow)"

definition long_result :: "int \<Rightarrow> fault + long" where
  "long_result v = (if - (2 ^ 63) \<le> v \<and> v < 2 ^ 63 then Inr (word_of_int v) else Inl SignedOverflow)"

section \<open>bug1.c: the command interpreter with CALC, ALLOC and ECHO\<close>

text \<open>
  \<open>process_command(tokens, count)\<close>, with \<open>count = length tokens\<close>. The function
  reads from standard input in the ALLOC branch, so it takes the unread input and returns
  what it printed together with the input left.

  CALC with four tokens computes in \<open>int\<close>; overflow and division by zero are undefined.
  The operator is the first character of the third token (the terminating NUL if the
  token is empty).
  CALC with fewer tokens reads \<open>p[10]\<close> through a null pointer. ALLOC without a size
  writes \<open>arr[10]\<close> of a five-element array; with a size it allocates \<open>sz\<close> bytes,
  reads them with \<open>fread\<close>, and prints the buffer as a string: the read is in bounds only
  if a NUL byte is among the \<open>sz\<close> bytes read. Any other command copies twelve bytes into
  a ten-byte block.
\<close>

definition calc :: "cint \<Rightarrow> char \<Rightarrow> cint \<Rightarrow> fault + cint" where
  "calc a op b =
     (if op = CHR ''+'' then int_result (sint a + sint b)
      else if op = CHR ''-'' then int_result (sint a - sint b)
      else if op = CHR ''*'' then int_result (sint a * sint b)
      else if op = CHR ''/'' then
        (if b = 0 then Inl DivisionByZero else int_result (sint a sdiv sint b))
      else Inr a)"

definition process_command ::
  "allocator \<Rightarrow> string list \<Rightarrow> string \<Rightarrow> fault + (string \<times> string)" where
  "process_command alloc tokens stdin =
     (if length tokens < 1 then Inr ([], stdin)
      else if tokens ! 0 = ''CALC'' then
        (if length tokens \<ge> 4 then
           (case calc (atoi (tokens ! 1)) (case tokens ! 2 of [] \<Rightarrow> NUL | c # _ \<Rightarrow> c)
                   (atoi (tokens ! 3)) of
              Inl f \<Rightarrow> Inl f
            | Inr result \<Rightarrow> Inr (''Result: '' @ show_int (sint result) @ [NL], stdin))
         else Inl NullDereference)
      else if tokens ! 0 = ''ALLOC'' then
        (if length tokens \<ge> 2 then
           (let sz = atoi (tokens ! 1);
                request = unat (scast sz :: size_t)
            in if granted alloc request then
                 (if length stdin < request then Inl OutOfBounds
                  else if NUL \<in> set (take request stdin) then
                    Inr (''Data read: '' @ c_str (take request stdin) @ [NL], drop request stdin)
                  else Inl OutOfBounds)
               else Inl OutOfBounds)
         else Inl OutOfBounds)
      else if tokens ! 0 = ''ECHO'' then
        Inr (concat (map (\<lambda>t. t @ '' '') (drop 1 tokens)) @ [NL], stdin)
      else Inl OutOfBounds)"

text \<open>
  \<open>main\<close>: one line at a time (\<open>MAX_LINE = 1024\<close>), cut at the newline, split at spaces
  into at most \<open>MAX_TOKENS = 16\<close> tokens, and handed to \<open>process_command\<close>. The loop
  ends at end of input; a fault ends the run. The second argument is the output so far.
\<close>

lemma fgets_shorter: "fgets 1024 s = Some (line, rest) \<Longrightarrow> length rest < length s"
  by (cases s) (auto simp: fgets_def Let_def split: if_splits)

lemma process_command_stdin:
  "process_command alloc tokens s = Inr (out, rest) \<Longrightarrow> length rest \<le> length s"
  by (auto simp: process_command_def Let_def split: if_splits sum.splits)

function bug1_main :: "allocator \<Rightarrow> string \<Rightarrow> string \<Rightarrow> fault + string" where
  "bug1_main alloc stdin out =
     (case fgets 1024 stdin of
        None \<Rightarrow> Inr out
      | Some (line, rest) \<Rightarrow>
          (case process_command alloc (take 16 (strtok_all '' '' (strip_newline line))) rest of
             Inl f \<Rightarrow> Inl f
           | Inr (printed, rest') \<Rightarrow> bug1_main alloc rest' (out @ printed)))"
  by pat_completeness auto
termination
proof (relation "measure (\<lambda>(alloc, stdin, out). length stdin)")
  show "wf (measure (\<lambda>(alloc, stdin, out). length stdin))" by simp
next
  fix alloc :: allocator and stdin out x y xa ya :: string and x2 b
  assume f: "fgets 1024 stdin = Some x2" and x2: "(x, y) = x2"
    and p: "process_command alloc (take 16 (strtok_all '' '' (strip_newline x))) y = Inr b"
    and b: "(xa, ya) = b"
  have "length y < length stdin"
    using f x2 fgets_shorter [of stdin x y] by simp
  moreover have "length ya \<le> length y"
    using p b process_command_stdin [of alloc _ y xa ya] by simp
  ultimately show "((alloc, ya, out @ xa), (alloc, stdin, out))
      \<in> measure (\<lambda>(alloc, stdin, out). length stdin)"
    by simp
qed

declare bug1_main.simps [simp del]


section \<open>The heap blocks of the array managers\<close>

text \<open>
  \<open>struct Array\<close> of bug6.c and \<open>struct ArrayInfo\<close> of bug5.cpp have the same three
  fields. The \<open>data\<close> pointer is \<open>NULL\<close>, or points to a live block of \<open>int\<close> cells, or
  dangles (it points to a block that was freed). A cell of a live block holds a value or
  is indeterminate (\<open>None\<close>: allocated and never written). Every block is owned by one
  slot: each \<open>data\<close> pointer comes from its own \<open>malloc\<close> or \<open>realloc\<close>, so the block is
  kept inside the slot. The field \<open>size\<close> of the source is \<open>size_a\<close> here.
\<close>

type_synonym cells = "cint option list"

datatype pointer = Null | Block cells | Dangling

record Array =
  data :: pointer
  size_a :: size_t
  allocated :: bool

definition empty_slot :: Array where
  "empty_slot = \<lparr>data = Null, size_a = 0, allocated = False\<rparr>"

text \<open>
  The table is the sequence \<open>arrays[0 .. array_count - 1]\<close>; \<open>array_count\<close> (in C++,
  \<open>arrays.size()\<close>) is its length, which is below \<open>2 ^ 64\<close> in every state of the programs.
  So \<open>idx >= array_count\<close> is \<open>unat idx \<ge> length arrays\<close>, and \<open>array_count\<close> as a
  \<open>size_t\<close> value, for the arithmetic on it, is \<open>of_nat (length arrays)\<close>.
\<close>

type_synonym table = "Array list"

definition array_count :: "table \<Rightarrow> size_t" where
  "array_count arrays = of_nat (length arrays)"

text \<open>\<open>free(p)\<close>: fine on \<open>NULL\<close> and on a live block, a double free on a dangling pointer.\<close>

definition c_free :: "pointer \<Rightarrow> fault + unit" where
  "c_free p = (if p = Dangling then Inl DoubleFree else Inr ())"

text \<open>
  \<open>realloc(p, bytes)\<close> for a block of \<open>int\<close>. The result is the pointer returned (\<open>None\<close>
  for \<open>NULL\<close>) and what \<open>p\<close> itself is afterwards. A request that is not granted returns
  \<open>NULL\<close> and leaves the block alone. With \<open>bytes = 0\<close> the C library of the target frees a
  live block and returns \<open>NULL\<close>. A grown block keeps its cells; the new ones are
  indeterminate.
\<close>

definition resize_cells :: "nat \<Rightarrow> cells \<Rightarrow> cells" where
  "resize_cells n cs = take n cs @ replicate (n - length cs) None"

definition c_realloc :: "allocator \<Rightarrow> pointer \<Rightarrow> nat \<Rightarrow> fault + (pointer option \<times> pointer)" where
  "c_realloc alloc p bytes =
     (case p of
        Dangling \<Rightarrow> Inl UseAfterFree
      | Null \<Rightarrow>
          (if granted alloc bytes then Inr (Some (Block (replicate (bytes div 4) None)), Null)
           else Inr (None, Null))
      | Block cs \<Rightarrow>
          (if bytes = 0 then Inr (None, Dangling)
           else if granted alloc bytes then Inr (Some (Block (resize_cells (bytes div 4) cs)), Dangling)
           else Inr (None, Block cs)))"

text \<open>
  \<open>memcpy(dst + pos, src, 4 * n)\<close> on cells: both ranges must lie inside their blocks.
\<close>

definition c_memcpy :: "cells \<Rightarrow> nat \<Rightarrow> cells \<Rightarrow> nat \<Rightarrow> fault + cells" where
  "c_memcpy dst pos src n =
     (if n \<le> length src \<and> pos + n \<le> length dst
      then Inr (take pos dst @ take n src @ drop (pos + n) dst)
      else Inl OutOfBounds)"

text \<open>
  The loop \<open>for (i = 0; i < n; i++) p[i] = v\<close> on the cells of a block.
\<close>

definition store_loop :: "nat \<Rightarrow> cint \<Rightarrow> cells \<Rightarrow> cells" where
  "store_loop n v cs = fold (\<lambda>i c. c[i := Some v]) [0..<n] cs"

text \<open>Reading cell \<open>i\<close> of what a \<open>data\<close> pointer points to.\<close>

definition read_cell :: "pointer \<Rightarrow> nat \<Rightarrow> fault + cint" where
  "read_cell p i =
     (case p of
        Null \<Rightarrow> Inl NullDereference
      | Dangling \<Rightarrow> Inl UseAfterFree
      | Block cs \<Rightarrow>
          (if i < length cs then (case cs ! i of None \<Rightarrow> Inl UninitialisedRead | Some v \<Rightarrow> Inr v)
           else Inl OutOfBounds))"

text \<open>
  The guard that opens \<open>fill_array\<close>, \<open>compute_stat\<close> and \<open>print_array\<close> in both
  programs, \<open>idx >= array_count || !arrays[idx].allocated\<close>, as a lookup: the slot, if
  there is one to work on.
\<close>

definition get :: "table \<Rightarrow> size_t \<Rightarrow> Array option" where
  "get arrays idx =
     (if unat idx \<ge> length arrays \<or> \<not> allocated (arrays ! unat idx) then None
      else Some (arrays ! unat idx))"

section \<open>bug6.c: the record manager\<close>

text \<open>
  \<open>ensure_capacity(idx)\<close>. \<open>sizeof(struct Array)\<close> is 24. When \<open>new_count * 24\<close> wraps
  around, the block that \<open>realloc\<close> returns is too small for the initialising loop; and
  when it wraps to 0, \<open>realloc\<close> frees the table there is and returns \<open>NULL\<close>, so that
  \<open>arrays\<close> dangles from then on.
\<close>

definition ensure_capacity :: "allocator \<Rightarrow> size_t \<Rightarrow> table \<Rightarrow> fault + table" where
  "ensure_capacity alloc idx arrays =
     (if unat idx \<ge> length arrays then
        (let c1 = idx + 1;
             c2 = (if c1 < array_count arrays * 2 then array_count arrays * 2 + 1 else c1);
             new_count = (if c2 < 16 then 16 else c2);
             bytes = unat (new_count * 24)
         in if unat new_count * 24 \<ge> 2 ^ 64 \<and> bytes = 0 \<and> arrays \<noteq> [] then Inl UseAfterFree
            else if \<not> granted alloc bytes then Inr arrays
            else if unat new_count * 24 \<ge> 2 ^ 64 then Inl OutOfBounds
            else Inr (take (unat new_count) arrays
                      @ replicate (unat new_count - length arrays) empty_slot))
      else Inr arrays)"

text \<open>
  \<open>create_array(idx, size_arg)\<close>. \<open>SIZE_MAX / sizeof(int)\<close> is \<open>2 ^ 62 - 1\<close>.
\<close>

definition create_array :: "allocator \<Rightarrow> size_t \<Rightarrow> long \<Rightarrow> table \<Rightarrow> fault + table" where
  "create_array alloc idx size_arg arrays0 =
     (case ensure_capacity alloc idx arrays0 of
        Inl f \<Rightarrow> Inl f
      | Inr arrays \<Rightarrow>
          if unat idx \<ge> length arrays then Inr arrays
          else if allocated (arrays ! unat idx) \<and> data (arrays ! unat idx) = Dangling
          then Inl DoubleFree
          else
            (let arrays1 = (if allocated (arrays ! unat idx)
                            then arrays[unat idx := empty_slot] else arrays);
                 size1 = (if sint size_arg < 0 then 10 else size_arg);
                 count = (if size1 > 4611686018427387903 then 100 else size1)
             in if \<not> granted alloc (unat (count * 4)) then Inr arrays1
                else Inr (arrays1[unat idx :=
                       \<lparr>data = Block (store_loop (unat count) 0 (replicate (unat count) None)),
                        size_a = count, allocated = True\<rparr>])))"

text \<open>\<open>fill_array(idx, value)\<close>: every cell below \<open>size\<close> becomes \<open>(int) value\<close>.\<close>

definition fill_array :: "size_t \<Rightarrow> long \<Rightarrow> table \<Rightarrow> fault + table" where
  "fill_array idx val arrays =
     (case get arrays idx of
        None \<Rightarrow> Inr arrays
      | Some a \<Rightarrow>
          (if size_a a = 0 then Inr arrays
           else case data a of
               Null \<Rightarrow> Inl NullDereference
             | Dangling \<Rightarrow> Inl UseAfterFree
             | Block cs \<Rightarrow>
                 (if unat (size_a a) \<le> length cs
                  then Inr (arrays[unat idx := a\<lparr>data := Block (store_loop (unat (size_a a)) (scast val) cs)\<rparr>])
                  else Inl OutOfBounds)))"

text \<open>\<open>free_array(idx)\<close>.\<close>

definition free_array :: "size_t \<Rightarrow> table \<Rightarrow> fault + table" where
  "free_array idx arrays =
     (if unat idx < length arrays \<and> allocated (arrays ! unat idx) then
        (case c_free (data (arrays ! unat idx)) of
           Inl f \<Rightarrow> Inl f
         | Inr _ \<Rightarrow> Inr (arrays[unat idx := empty_slot]))
      else Inr arrays)"


text \<open>
  \<open>compute_stat(idx)\<close>: the table is only read; the result is what is printed. The loop
  adds the cells \<open>0 .. size - 1\<close> into a \<open>long\<close>; the average is a \<open>long\<close> division,
  which truncates.
\<close>

fun stat_loop :: "pointer \<Rightarrow> nat list \<Rightarrow> int \<Rightarrow> fault + int" where
  "stat_loop p [] acc = Inr acc"
| "stat_loop p (i # is) acc =
     (case read_cell p i of
        Inl f \<Rightarrow> Inl f
      | Inr v \<Rightarrow>
          (if - LONG_MAX - 1 \<le> acc + sint v \<and> acc + sint v \<le> LONG_MAX
           then stat_loop p is (acc + sint v)
           else Inl SignedOverflow))"

definition compute_stat :: "size_t \<Rightarrow> table \<Rightarrow> fault + string" where
  "compute_stat idx arrays =
     (case get arrays idx of
        None \<Rightarrow> Inr []
      | Some a \<Rightarrow>
          (if size_a a = 0 then Inr []
           else case stat_loop (data a) [0..<unat (size_a a)] 0 of
               Inl f \<Rightarrow> Inl f
             | Inr acc \<Rightarrow>
                 (case long_result (acc sdiv sint (size_a a)) of
                    Inl f \<Rightarrow> Inl f
                  | Inr avg \<Rightarrow> Inr (''Average: '' @ show_int (sint avg) @ [NL]))))"

text \<open>
  \<open>print_array(idx, start, end)\<close>: the cells \<open>start .. end\<close>, each followed by a space,
  then a newline. The range test compares \<open>(size_t) end\<close> with the slot's size.
\<close>

fun print_loop :: "pointer \<Rightarrow> nat list \<Rightarrow> fault + string" where
  "print_loop p [] = Inr []"
| "print_loop p (i # is) =
     (case read_cell p i of
        Inl f \<Rightarrow> Inl f
      | Inr v \<Rightarrow>
          (case print_loop p is of
             Inl f \<Rightarrow> Inl f
           | Inr out \<Rightarrow> Inr (show_int (sint v) @ '' '' @ out)))"

definition print_array :: "size_t \<Rightarrow> long \<Rightarrow> long \<Rightarrow> table \<Rightarrow> fault + string" where
  "print_array idx start stop arrays =
     (case get arrays idx of
        None \<Rightarrow> Inr []
      | Some a \<Rightarrow>
          (if sint start < 0 \<or> sint stop < sint start \<or> stop \<ge> size_a a then Inr []
           else case print_loop (data a) [nat (sint start)..<nat (sint stop) + 1] of
               Inl f \<Rightarrow> Inl f
             | Inr out \<Rightarrow> if sint stop = LONG_MAX then Inl SignedOverflow else Inr (out @ [NL])))"

text \<open>
  \<open>splice_array(dest, src, offset, count)\<close>. The four tests return before anything is
  touched. \<open>offset + count\<close> is a \<open>long\<close> addition. The copying loop reads cell
  \<open>offset + i\<close> of the source and writes cell \<open>size + i\<close> of the destination, both through
  the table, so that source and destination may be the same slot.
\<close>

fun splice_loop :: "nat \<Rightarrow> nat \<Rightarrow> size_t \<Rightarrow> long \<Rightarrow> nat list \<Rightarrow> table \<Rightarrow> fault + table" where
  "splice_loop dest src dsize offset [] arrays = Inr arrays"
| "splice_loop dest src dsize offset (i # is) arrays =
     (case read_cell (data (arrays ! src)) (nat (sint offset) + i) of
        Inl f \<Rightarrow> Inl f
      | Inr v \<Rightarrow>
          (case data (arrays ! dest) of
             Null \<Rightarrow> Inl NullDereference
           | Dangling \<Rightarrow> Inl UseAfterFree
           | Block cs \<Rightarrow>
               (if unat (dsize + of_nat i) < length cs
                then splice_loop dest src dsize offset is
                       (arrays[dest := (arrays ! dest)
                          \<lparr>data := Block (cs[unat (dsize + of_nat i) := Some v])\<rparr>])
                else Inl OutOfBounds)))"

definition splice_array ::
  "allocator \<Rightarrow> size_t \<Rightarrow> size_t \<Rightarrow> long \<Rightarrow> long \<Rightarrow> table \<Rightarrow> fault + table" where
  "splice_array alloc dest src offset count arrays =
     (if unat dest \<ge> length arrays \<or> unat src \<ge> length arrays then Inr arrays
      else if \<not> allocated (arrays ! unat dest) \<or> \<not> allocated (arrays ! unat src) then Inr arrays
      else if sint offset < 0 \<or> sint count < 0 then Inr arrays
      else if sint offset + sint count > LONG_MAX then Inl SignedOverflow
      else if sint (size_a (arrays ! unat src)) < sint offset + sint count then Inr arrays
      else
        (let d = arrays ! unat dest;
             s0 = size_a d + count;
             new_size = (if s0 < size_a d then size_a d + 10 else s0)
         in case c_realloc alloc (data d) (unat (new_size * 4)) of
              Inl f \<Rightarrow> Inl f
            | Inr (None, old) \<Rightarrow> Inr (arrays[unat dest := d\<lparr>data := old\<rparr>])
            | Inr (Some new_data, old) \<Rightarrow>
                (case splice_loop (unat dest) (unat src) (size_a d) offset [0..<nat (sint count)]
                        (arrays[unat dest := d\<lparr>data := new_data\<rparr>]) of
                   Inl f \<Rightarrow> Inl f
                 | Inr arrays1 \<Rightarrow>
                     Inr (arrays1[unat dest := (arrays1 ! unat dest)\<lparr>size_a := new_size\<rparr>]))))"

text \<open>
  \<open>join_arrays(new_idx, idx1, idx2)\<close>. An allocated slot at \<open>new_idx\<close> has its block
  freed and its pointer kept; if the \<open>malloc\<close> that follows fails, the slot stays allocated
  with a dangling pointer. The two \<open>memcpy\<close> calls copy \<open>size * sizeof(int)\<close> bytes,
  computed in \<open>size_t\<close>.
\<close>

definition source_cells :: "pointer \<Rightarrow> fault + cells" where
  "source_cells p =
     (case p of Null \<Rightarrow> Inl NullDereference | Dangling \<Rightarrow> Inl UseAfterFree | Block cs \<Rightarrow> Inr cs)"

definition join_copy :: "nat \<Rightarrow> Array \<Rightarrow> Array \<Rightarrow> fault + cells" where
  "join_copy capacity a1 a2 =
     (case source_cells (data a1) of
        Inl f \<Rightarrow> Inl f
      | Inr cs1 \<Rightarrow>
          (case c_memcpy (replicate capacity None) 0 cs1 (unat (size_a a1 * 4) div 4) of
             Inl f \<Rightarrow> Inl f
           | Inr p1 \<Rightarrow>
               (case source_cells (data a2) of
                  Inl f \<Rightarrow> Inl f
                | Inr cs2 \<Rightarrow> c_memcpy p1 (unat (size_a a1)) cs2 (unat (size_a a2 * 4) div 4))))"

definition join_arrays ::
  "allocator \<Rightarrow> size_t \<Rightarrow> size_t \<Rightarrow> size_t \<Rightarrow> table \<Rightarrow> fault + table" where
  "join_arrays alloc new_idx idx1 idx2 arrays0 =
     (if unat idx1 \<ge> length arrays0 \<or> unat idx2 \<ge> length arrays0 then Inr arrays0
      else if \<not> allocated (arrays0 ! unat idx1) \<or> \<not> allocated (arrays0 ! unat idx2) then Inr arrays0
      else
        (let size1 = size_a (arrays0 ! unat idx1);
             size2 = size_a (arrays0 ! unat idx2);
             s0 = size1 + size2;
             new_size = (if s0 < size1 \<or> s0 < size2 then size1 + size2 div 2 else s0)
         in case ensure_capacity alloc new_idx arrays0 of
              Inl f \<Rightarrow> Inl f
            | Inr arrays \<Rightarrow>
                if unat new_idx \<ge> length arrays then Inr arrays
                else if allocated (arrays ! unat new_idx) \<and> data (arrays ! unat new_idx) = Dangling
                then Inl DoubleFree
                else
                  (let arrays1 =
                         (if allocated (arrays ! unat new_idx) \<and> data (arrays ! unat new_idx) \<noteq> Null
                          then arrays[unat new_idx := (arrays ! unat new_idx)\<lparr>data := Dangling\<rparr>]
                          else arrays)
                   in if \<not> granted alloc (unat (new_size * 4)) then Inr arrays1
                      else if unat idx1 \<ge> length arrays1 \<or> unat idx2 \<ge> length arrays1
                      then Inl OutOfBounds
                      else case join_copy (unat (new_size * 4) div 4)
                                  (arrays1 ! unat idx1) (arrays1 ! unat idx2) of
                          Inl f \<Rightarrow> Inl f
                        | Inr p \<Rightarrow>
                            Inr (arrays1[unat new_idx :=
                                   \<lparr>data = Block p, size_a = new_size, allocated = True\<rparr>]))))"

text \<open>
  The body of the loop of \<open>main\<close> for one tokenised line: \<open>ARG_L(i)\<close> is
  \<open>strtol(tokens[i], NULL, 10)\<close>, or 0 when there is no token \<open>i\<close>; an index argument is
  the same bits as \<open>size_t\<close>. The result is the table and what the command printed.
\<close>

definition ARG_L :: "string list \<Rightarrow> nat \<Rightarrow> long" where
  "ARG_L tokens i = (if i < length tokens then strtol (tokens ! i) else 0)"

definition dispatch :: "allocator \<Rightarrow> string list \<Rightarrow> table \<Rightarrow> fault + (table \<times> string)" where
  "dispatch alloc tokens arrays =
     (if tokens ! 0 = ''CREATE'' \<and> length tokens > 2 then
        (case create_array alloc (ARG_L tokens 1) (ARG_L tokens 2) arrays of
           Inl f \<Rightarrow> Inl f | Inr t \<Rightarrow> Inr (t, []))
      else if tokens ! 0 = ''FILL'' \<and> length tokens > 2 then
        (case fill_array (ARG_L tokens 1) (ARG_L tokens 2) arrays of
           Inl f \<Rightarrow> Inl f | Inr t \<Rightarrow> Inr (t, []))
      else if tokens ! 0 = ''SPLICE'' \<and> length tokens > 4 then
        (case splice_array alloc (ARG_L tokens 1) (ARG_L tokens 2) (ARG_L tokens 3)
                (ARG_L tokens 4) arrays of
           Inl f \<Rightarrow> Inl f | Inr t \<Rightarrow> Inr (t, []))
      else if tokens ! 0 = ''JOIN'' \<and> length tokens > 3 then
        (case join_arrays alloc (ARG_L tokens 1) (ARG_L tokens 2) (ARG_L tokens 3) arrays of
           Inl f \<Rightarrow> Inl f | Inr t \<Rightarrow> Inr (t, []))
      else if tokens ! 0 = ''FREE'' \<and> length tokens > 1 then
        (case free_array (ARG_L tokens 1) arrays of
           Inl f \<Rightarrow> Inl f | Inr t \<Rightarrow> Inr (t, []))
      else if tokens ! 0 = ''STAT'' \<and> length tokens > 1 then
        (case compute_stat (ARG_L tokens 1) arrays of
           Inl f \<Rightarrow> Inl f | Inr out \<Rightarrow> Inr (arrays, out))
      else if tokens ! 0 = ''PRINT'' \<and> length tokens > 3 then
        (case print_array (ARG_L tokens 1) (ARG_L tokens 2) (ARG_L tokens 3) arrays of
           Inl f \<Rightarrow> Inl f | Inr out \<Rightarrow> Inr (arrays, out))
      else Inr (arrays, []))"

text \<open>
  \<open>main\<close>: lines of at most 1023 characters, at most ten tokens a line; an empty line or
  one of spaces only is skipped. At end of input every allocated slot is freed. The result
  is what the run printed.
\<close>

fun cleanup :: "table \<Rightarrow> fault + unit" where
  "cleanup [] = Inr ()"
| "cleanup (a # arrays) =
     (if allocated a then (case c_free (data a) of Inl f \<Rightarrow> Inl f | Inr _ \<Rightarrow> cleanup arrays)
      else cleanup arrays)"

function bug6_loop :: "allocator \<Rightarrow> string \<Rightarrow> table \<Rightarrow> string \<Rightarrow> fault + (table \<times> string)" where
  "bug6_loop alloc stdin arrays out =
     (case fgets 1024 stdin of
        None \<Rightarrow> Inr (arrays, out)
      | Some (line, rest) \<Rightarrow>
          (if take 10 (strtok_all '' '' (strip_newline line)) = []
           then bug6_loop alloc rest arrays out
           else case dispatch alloc (take 10 (strtok_all '' '' (strip_newline line))) arrays of
               Inl f \<Rightarrow> Inl f
             | Inr (arrays1, printed) \<Rightarrow> bug6_loop alloc rest arrays1 (out @ printed)))"
  by pat_completeness auto
termination
proof (relation "measure (\<lambda>(alloc, stdin, arrays, out). length stdin)")
  show "wf (measure (\<lambda>(alloc, stdin, arrays, out). length stdin))" by simp
next
  fix alloc :: allocator and stdin out line rest :: string and arrays :: table and x2
  assume "fgets 1024 stdin = Some x2" and "(line, rest) = x2"
  then have "length rest < length stdin"
    using fgets_shorter [of stdin line rest] by simp
  then show "((alloc, rest, arrays, out), (alloc, stdin, arrays, out))
      \<in> measure (\<lambda>(alloc, stdin, arrays, out). length stdin)"
    by simp
next
  fix alloc :: allocator and stdin out line rest printed :: string and arrays arrays1 :: table
    and x2 :: "string \<times> string" and b :: "table \<times> string"
  assume "fgets 1024 stdin = Some x2" and "(line, rest) = x2" and "(arrays1, printed) = b"
  then have "length rest < length stdin"
    using fgets_shorter [of stdin line rest] by simp
  then show "((alloc, rest, arrays1, out @ printed), (alloc, stdin, arrays, out))
      \<in> measure (\<lambda>(alloc, stdin, arrays, out). length stdin)"
    by simp
qed

declare bug6_loop.simps [simp del]

definition bug6_main :: "allocator \<Rightarrow> string \<Rightarrow> fault + string" where
  "bug6_main alloc stdin =
     (case bug6_loop alloc stdin [] [] of
        Inl f \<Rightarrow> Inl f
      | Inr (arrays, out) \<Rightarrow> (case cleanup arrays of Inl f \<Rightarrow> Inl f | Inr _ \<Rightarrow> Inr out))"


section \<open>bug5.cpp: the in-memory database of arrays\<close>

text \<open>
  The same operations over a \<open>std::vector<ArrayInfo>\<close>. Every function of this program
  writes its diagnostics to \<open>std::cerr\<close> and its results to \<open>std::cout\<close>, so an operation
  returns the table with what it wrote to each: \<open>(arrays, cout, cerr)\<close>.

  \<open>ensure_capacity(idx)\<close> is \<open>arrays.resize(idx + 1, {NULL, 0, false})\<close> when
  \<open>idx >= arrays.size()\<close>. \<open>idx + 1\<close> is 0 for the largest index, and \<open>resize(0)\<close>
  empties the vector. A length above \<open>max_size()\<close> throws \<open>std::length_error\<close>, and
  storage that is not obtained throws \<open>std::bad_alloc\<close>; nothing catches either. The
  allocator parameter says here whether the vector obtains storage for the new length.
\<close>

type_synonym outcome = "table \<times> string \<times> string"

definition ensure_capacity_cpp :: "allocator \<Rightarrow> size_t \<Rightarrow> table \<Rightarrow> fault + table" where
  "ensure_capacity_cpp alloc idx arrays =
     (if unat idx \<ge> length arrays then
        (if idx + 1 = 0 then Inr []
         else if unat (idx + 1) * 24 > PTRDIFF_MAX then Inl UncaughtException
         else if \<not> granted alloc (unat (idx + 1) * 24) then Inl UncaughtException
         else Inr (arrays @ replicate (unat (idx + 1) - length arrays) empty_slot))
      else Inr arrays)"

text \<open>
  \<open>create_array(idx, count)\<close>: \<open>alloc_size = (size_t) count * sizeof(int)\<close> wraps around,
  and the initialising loop runs to \<open>count\<close> whatever was allocated.
\<close>

definition create_array_cpp :: "allocator \<Rightarrow> size_t \<Rightarrow> long \<Rightarrow> table \<Rightarrow> fault + outcome" where
  "create_array_cpp alloc idx count0 arrays0 =
     (case ensure_capacity_cpp alloc idx arrays0 of
        Inl f \<Rightarrow> Inl f
      | Inr arrays \<Rightarrow>
          if unat idx \<ge> length arrays then Inl OutOfBounds
          else if allocated (arrays ! unat idx) \<and> data (arrays ! unat idx) = Dangling
          then Inl DoubleFree
          else
            (let arrays1 = (if allocated (arrays ! unat idx)
                            then arrays[unat idx := empty_slot] else arrays);
                 count = (if sint count0 < 0 then 100 else count0);
                 alloc_size = unat (count * 4)
             in if \<not> granted alloc alloc_size then Inr (arrays1, [], [])
                else if unat count > alloc_size div 4 then Inl OutOfBounds
                else Inr (arrays1[unat idx :=
                       \<lparr>data = Block (store_loop (unat count) 0 (replicate (alloc_size div 4) None)),
                        size_a = count, allocated = True\<rparr>], [], [])))"

definition fill_array_cpp :: "size_t \<Rightarrow> long \<Rightarrow> table \<Rightarrow> fault + outcome" where
  "fill_array_cpp idx val arrays =
     (case get arrays idx of
        None \<Rightarrow> Inr (arrays, [], ''fill_array: array not allocated'' @ [NL])
      | Some a \<Rightarrow>
          (if size_a a = 0 then Inr (arrays, [], [])
           else case data a of
               Null \<Rightarrow> Inl NullDereference
             | Dangling \<Rightarrow> Inl UseAfterFree
             | Block cs \<Rightarrow>
                 (if unat (size_a a) \<le> length cs
                  then Inr (arrays[unat idx := a\<lparr>data := Block (store_loop (unat (size_a a)) (scast val) cs)\<rparr>], [], [])
                  else Inl OutOfBounds)))"

text \<open>
  \<open>splice_array(dest, src, offset, count)\<close>: the vector is grown for both indices first.
  \<open>offset + count\<close> and \<open>(long) size + count\<close> are \<open>long\<close> additions.
\<close>

definition splice_array_cpp ::
  "allocator \<Rightarrow> size_t \<Rightarrow> size_t \<Rightarrow> long \<Rightarrow> long \<Rightarrow> table \<Rightarrow> fault + outcome" where
  "splice_array_cpp alloc dest src offset count arrays0 =
     (case ensure_capacity_cpp alloc dest arrays0 of
        Inl f \<Rightarrow> Inl f
      | Inr arrays' \<Rightarrow>
     (case ensure_capacity_cpp alloc src arrays' of
        Inl f \<Rightarrow> Inl f
      | Inr arrays \<Rightarrow>
          if unat dest \<ge> length arrays \<or> unat src \<ge> length arrays then Inl OutOfBounds
          else if \<not> allocated (arrays ! unat dest) \<or> \<not> allocated (arrays ! unat src)
          then Inr (arrays, [], ''splice_array: one or both arrays not allocated'' @ [NL])
          else if sint offset < 0 \<or> sint count < 0
          then Inr (arrays, [], ''splice_array: invalid offset/count'' @ [NL])
          else if sint offset + sint count > LONG_MAX then Inl SignedOverflow
          else if sint (size_a (arrays ! unat src)) < sint offset + sint count
          then Inr (arrays, [], ''splice_array: invalid offset/count'' @ [NL])
          else if sint (size_a (arrays ! unat dest)) + sint count > LONG_MAX then Inl SignedOverflow
          else
            (let d = arrays ! unat dest;
                 s0 = size_a d + count;
                 new_size = (if sint s0 < 0 then 10 else s0)
             in case c_realloc alloc (data d) (unat (new_size * 4)) of
                  Inl f \<Rightarrow> Inl f
                | Inr (None, old) \<Rightarrow>
                    Inr (arrays[unat dest := d\<lparr>data := old\<rparr>], [],
                         ''splice_array: realloc failed'' @ [NL])
                | Inr (Some new_data, old) \<Rightarrow>
                    (case splice_loop (unat dest) (unat src) (size_a d) offset
                            [0..<nat (sint count)] (arrays[unat dest := d\<lparr>data := new_data\<rparr>]) of
                       Inl f \<Rightarrow> Inl f
                     | Inr arrays1 \<Rightarrow>
                         Inr (arrays1[unat dest := (arrays1 ! unat dest)\<lparr>size_a := new_size\<rparr>],
                              [], [])))))"

definition join_arrays_cpp ::
  "allocator \<Rightarrow> size_t \<Rightarrow> size_t \<Rightarrow> size_t \<Rightarrow> table \<Rightarrow> fault + outcome" where
  "join_arrays_cpp alloc new_idx idx1 idx2 arrays0 =
     (case ensure_capacity_cpp alloc new_idx arrays0 of
        Inl f \<Rightarrow> Inl f
      | Inr arrays' \<Rightarrow>
     (case ensure_capacity_cpp alloc idx1 arrays' of
        Inl f \<Rightarrow> Inl f
      | Inr arrays'' \<Rightarrow>
     (case ensure_capacity_cpp alloc idx2 arrays'' of
        Inl f \<Rightarrow> Inl f
      | Inr arrays \<Rightarrow>
          if unat idx1 \<ge> length arrays \<or> unat idx2 \<ge> length arrays then Inl OutOfBounds
          else if \<not> allocated (arrays ! unat idx1) \<or> \<not> allocated (arrays ! unat idx2)
          then Inr (arrays, [], ''join_arrays: one or both arrays not allocated'' @ [NL])
          else if size_a (arrays ! unat idx1) > - 1 - size_a (arrays ! unat idx2)
          then Inr (arrays, [], ''join_arrays: size overflow'' @ [NL])
          else
            (let new_size = size_a (arrays ! unat idx1) + size_a (arrays ! unat idx2)
             in if \<not> granted alloc (unat (new_size * 4))
                then Inr (arrays, [], ''join_arrays: malloc failed'' @ [NL])
                else case join_copy (unat (new_size * 4) div 4)
                            (arrays ! unat idx1) (arrays ! unat idx2) of
                    Inl f \<Rightarrow> Inl f
                  | Inr p \<Rightarrow>
                      if unat new_idx \<ge> length arrays then Inl OutOfBounds
                      else if allocated (arrays ! unat new_idx)
                            \<and> data (arrays ! unat new_idx) = Dangling
                      then Inl DoubleFree
                      else Inr (arrays[unat new_idx :=
                                  \<lparr>data = Block p, size_a = new_size, allocated = True\<rparr>],
                                [], [])))))"

definition free_array_cpp :: "size_t \<Rightarrow> table \<Rightarrow> fault + outcome" where
  "free_array_cpp idx arrays =
     (if unat idx < length arrays \<and> allocated (arrays ! unat idx) then
        (case c_free (data (arrays ! unat idx)) of
           Inl f \<Rightarrow> Inl f
         | Inr _ \<Rightarrow> Inr (arrays[unat idx := empty_slot], [], []))
      else Inr (arrays, [], ''free_array: array not allocated or invalid index'' @ [NL]))"

definition compute_stat_cpp :: "size_t \<Rightarrow> table \<Rightarrow> fault + outcome" where
  "compute_stat_cpp idx arrays =
     (case get arrays idx of
        None \<Rightarrow> Inr (arrays, [], ''compute_stat: array not allocated'' @ [NL])
      | Some a \<Rightarrow>
          (if size_a a = 0 then Inr (arrays, [], ''compute_stat: array is empty'' @ [NL])
           else case stat_loop (data a) [0..<unat (size_a a)] 0 of
               Inl f \<Rightarrow> Inl f
             | Inr acc \<Rightarrow>
                 (case long_result (acc sdiv sint (size_a a)) of
                    Inl f \<Rightarrow> Inl f
                  | Inr avg \<Rightarrow>
                      Inr (arrays, ''Average: '' @ show_int (sint avg) @ [NL], []))))"

definition print_array_cpp :: "size_t \<Rightarrow> long \<Rightarrow> long \<Rightarrow> table \<Rightarrow> fault + outcome" where
  "print_array_cpp idx start stop arrays =
     (case get arrays idx of
        None \<Rightarrow> Inr (arrays, [], ''print_array: array not allocated'' @ [NL])
      | Some a \<Rightarrow>
          (if sint start < 0 \<or> sint stop < sint start \<or> stop \<ge> size_a a
           then Inr (arrays, [], ''print_array: invalid range'' @ [NL])
           else case print_loop (data a) [nat (sint start)..<nat (sint stop) + 1] of
               Inl f \<Rightarrow> Inl f
             | Inr out \<Rightarrow>
                 if sint stop = LONG_MAX then Inl SignedOverflow
                 else Inr (arrays, out @ [NL], [])))"


text \<open>
  \<open>main\<close>: \<open>std::getline\<close> has no length limit and fails only when no character is
  left. The line is split at every single space with \<open>find\<close> and \<open>substr\<close>, so two spaces in
  a row give an empty token; what follows the last space is a token unless it is empty.
  \<open>toL(i)\<close> is \<open>strtol(tokens[i].c_str(), NULL, 10)\<close>, or 0 when there is no token \<open>i\<close>.
\<close>

definition getline :: "string \<Rightarrow> (string \<times> string) option" where
  "getline s =
     (if s = [] then None
      else Some (takeWhile (\<lambda>c. c \<noteq> NL) s, drop 1 (dropWhile (\<lambda>c. c \<noteq> NL) s)))"

function split_spaces :: "string \<Rightarrow> string list" where
  "split_spaces s =
     (if CHR '' '' \<in> set s
      then takeWhile (\<lambda>c. c \<noteq> CHR '' '') s
           # split_spaces (drop 1 (dropWhile (\<lambda>c. c \<noteq> CHR '' '') s))
      else if s \<noteq> [] then [s] else [])"
  by pat_completeness auto
termination
proof (relation "measure length")
  show "wf (measure length)" by simp
next
  fix s :: string
  assume sp: "CHR '' '' \<in> set s"
  have a: "length (dropWhile (\<lambda>c. c \<noteq> CHR '' '') s) \<le> length s"
    by (rule length_dropWhile_le)
  have "dropWhile (\<lambda>c. c \<noteq> CHR '' '') s \<noteq> []"
    using sp by (simp add: dropWhile_eq_Nil_conv)
  then have b: "0 < length (dropWhile (\<lambda>c. c \<noteq> CHR '' '') s)"
    by simp
  have d: "length (drop 1 (dropWhile (\<lambda>c. c \<noteq> CHR '' '') s))
      = length (dropWhile (\<lambda>c. c \<noteq> CHR '' '') s) - 1"
    by simp
  have "length (drop 1 (dropWhile (\<lambda>c. c \<noteq> CHR '' '') s)) < length s"
    unfolding d using a b by arith
  then show "(drop 1 (dropWhile (\<lambda>c. c \<noteq> CHR '' '') s), s) \<in> measure length"
    by simp
qed

declare split_spaces.simps [simp del]

definition toL :: "string list \<Rightarrow> nat \<Rightarrow> long" where
  "toL tokens i = (if i \<ge> length tokens then 0 else strtol (c_str (tokens ! i)))"

definition dispatch_cpp :: "allocator \<Rightarrow> string list \<Rightarrow> table \<Rightarrow> fault + outcome" where
  "dispatch_cpp alloc tokens arrays =
     (if tokens ! 0 = ''CREATE_ARRAY'' \<and> length tokens > 2 then
        create_array_cpp alloc (toL tokens 1) (toL tokens 2) arrays
      else if tokens ! 0 = ''FILL_ARRAY'' \<and> length tokens > 2 then
        fill_array_cpp (toL tokens 1) (toL tokens 2) arrays
      else if tokens ! 0 = ''SPLICE_ARRAY'' \<and> length tokens > 4 then
        splice_array_cpp alloc (toL tokens 1) (toL tokens 2) (toL tokens 3) (toL tokens 4) arrays
      else if tokens ! 0 = ''JOIN_ARRAYS'' \<and> length tokens > 3 then
        join_arrays_cpp alloc (toL tokens 1) (toL tokens 2) (toL tokens 3) arrays
      else if tokens ! 0 = ''FREE_ARRAY'' \<and> length tokens > 1 then
        free_array_cpp (toL tokens 1) arrays
      else if tokens ! 0 = ''COMPUTE_STAT'' \<and> length tokens > 1 then
        compute_stat_cpp (toL tokens 1) arrays
      else if tokens ! 0 = ''PRINT_ARRAY'' \<and> length tokens > 3 then
        print_array_cpp (toL tokens 1) (toL tokens 2) (toL tokens 3) arrays
      else Inr (arrays, [], []))"

lemma getline_shorter: "getline s = Some (line, rest) \<Longrightarrow> length rest < length s"
proof -
  assume g: "getline s = Some (line, rest)"
  then have ne: "s \<noteq> []" and r: "rest = drop 1 (dropWhile (\<lambda>c. c \<noteq> NL) s)"
    by (auto simp: getline_def split: if_splits)
  have a: "length (dropWhile (\<lambda>c. c \<noteq> NL) s) \<le> length s"
    by (rule length_dropWhile_le)
  have b: "0 < length s" using ne by simp
  have d: "length (drop 1 (dropWhile (\<lambda>c. c \<noteq> NL) s))
      = length (dropWhile (\<lambda>c. c \<noteq> NL) s) - 1"
    by simp
  show ?thesis unfolding r d using a b by arith
qed

function bug5_loop :: "allocator \<Rightarrow> string \<Rightarrow> outcome \<Rightarrow> fault + outcome" where
  "bug5_loop alloc stdin st =
     (case getline stdin of
        None \<Rightarrow> Inr st
      | Some (line, rest) \<Rightarrow>
          (if split_spaces line = [] then bug5_loop alloc rest st
           else case dispatch_cpp alloc (split_spaces line) (fst st) of
               Inl f \<Rightarrow> Inl f
             | Inr (arrays1, cout, cerr) \<Rightarrow>
                 bug5_loop alloc rest (arrays1, fst (snd st) @ cout, snd (snd st) @ cerr)))"
  by pat_completeness auto
termination
proof (relation "measure (\<lambda>(alloc, stdin, st). length stdin)")
  show "wf (measure (\<lambda>(alloc, stdin, st). length stdin))" by simp
next
  fix alloc :: allocator and stdin line rest :: string and st :: outcome and x2
  assume "getline stdin = Some x2" and "(line, rest) = x2"
  then have "length rest < length stdin"
    using getline_shorter [of stdin line rest] by simp
  then show "((alloc, rest, st), (alloc, stdin, st)) \<in> measure (\<lambda>(alloc, stdin, st). length stdin)"
    by simp
next
  fix alloc :: allocator and stdin line rest cout cerr :: string and st :: outcome
    and arrays1 :: table and x2 :: "string \<times> string" and b :: outcome and y :: "string \<times> string"
  assume "getline stdin = Some x2" and "(line, rest) = x2"
  then have "length rest < length stdin"
    using getline_shorter [of stdin line rest] by simp
  then show "((alloc, rest, arrays1, fst (snd st) @ cout, snd (snd st) @ cerr), (alloc, stdin, st))
      \<in> measure (\<lambda>(alloc, stdin, st). length stdin)"
    by simp
qed

declare bug5_loop.simps [simp del]

text \<open>The run: what was written to \<open>std::cout\<close> and to \<open>std::cerr\<close>.\<close>

definition bug5_main :: "allocator \<Rightarrow> string \<Rightarrow> fault + (string \<times> string)" where
  "bug5_main alloc stdin =
     (case bug5_loop alloc stdin ([], [], []) of
        Inl f \<Rightarrow> Inl f
      | Inr (arrays, cout, cerr) \<Rightarrow>
          (case cleanup arrays of Inl f \<Rightarrow> Inl f | Inr _ \<Rightarrow> Inr (cout, cerr)))"


section \<open>bug2.c: user profiles and their average age\<close>

text \<open>
  \<open>struct user\<close>: the two strings come from \<open>strdup\<close>, which returns \<open>NULL\<close> (\<open>None\<close>)
  when the allocator does not grant the copy. The state is the array \<open>users[0 ..
  user_count - 1]\<close> and \<open>user_capacity\<close>. \<open>sizeof(struct user)\<close> is 24.
\<close>

definition strdup :: "allocator \<Rightarrow> string \<Rightarrow> string option" where
  "strdup alloc s = (if granted alloc (length s + 1) then Some s else None)"

record user =
  name :: "string option"
  age :: cint
  email :: "string option"

record user_table =
  users :: "user list"
  user_capacity :: cint

definition add_user :: "allocator \<Rightarrow> string \<Rightarrow> cint \<Rightarrow> string \<Rightarrow> user_table \<Rightarrow> fault + user_table" where
  "add_user alloc nm ag em st =
     (let entry = \<lparr>name = strdup alloc nm, age = ag, email = strdup alloc em\<rparr>
      in if int (length (users st)) \<ge> sint (user_capacity st) then
           (case (if user_capacity st = 0 then Inr 2 else int_result (sint (user_capacity st) * 2)) of
              Inl f \<Rightarrow> Inl f
            | Inr new_capacity \<Rightarrow>
                if \<not> granted alloc (unat (scast new_capacity * 24 :: size_t)) then Inr st
                else Inr \<lparr>users = users st @ [entry], user_capacity = new_capacity\<rparr>)
         else Inr (st\<lparr>users := users st @ [entry]\<rparr>))"

text \<open>
  \<open>parse_line(line)\<close>: the first three tokens between commas; a line with fewer adds
  nothing. Leading spaces and tabs of each field are skipped; the age is \<open>atoi\<close> of the
  second field.
\<close>

definition trim :: "string \<Rightarrow> string" where
  "trim s = dropWhile (\<lambda>c. c = CHR '' '' \<or> c = CHR 0x09) s"

definition parse_line :: "allocator \<Rightarrow> string \<Rightarrow> user_table \<Rightarrow> fault + user_table" where
  "parse_line alloc line st =
     (let fields = take 3 (strtok_all '','' line)
      in if length fields < 3 then Inr st
         else add_user alloc (trim (fields ! 0)) (atoi (trim (fields ! 1))) (trim (fields ! 2)) st)"

function bug2_loop :: "allocator \<Rightarrow> string \<Rightarrow> user_table \<Rightarrow> fault + user_table" where
  "bug2_loop alloc stdin st =
     (case fgets 1024 stdin of
        None \<Rightarrow> Inr st
      | Some (line, rest) \<Rightarrow>
          (case parse_line alloc (strip_newline line) st of
             Inl f \<Rightarrow> Inl f
           | Inr st1 \<Rightarrow> bug2_loop alloc rest st1))"
  by pat_completeness auto
termination
proof (relation "measure (\<lambda>(alloc, stdin, st). length stdin)")
  show "wf (measure (\<lambda>(alloc, stdin, st). length stdin))" by simp
next
  fix alloc :: allocator and stdin line rest :: string and st st1 :: user_table and x2
  assume "fgets 1024 stdin = Some x2" and "(line, rest) = x2"
  then have "length rest < length stdin"
    using fgets_shorter [of stdin line rest] by simp
  then show "((alloc, rest, st1), (alloc, stdin, st)) \<in> measure (\<lambda>(alloc, stdin, st). length stdin)"
    by simp
qed

declare bug2_loop.simps [simp del]

text \<open>
  The end of \<open>main\<close>: the ages are added up in a \<open>long\<close> and divided by \<open>user_count\<close>
  with no test; then the first user is printed with no test. A string that is \<open>NULL\<close> is
  passed to \<open>%s\<close>.
\<close>

definition bug2_report :: "user list \<Rightarrow> fault + string" where
  "bug2_report us =
     (if us = [] then Inl DivisionByZero
      else case long_result (sum_list (map (\<lambda>u. sint (age u)) us) sdiv int (length us)) of
          Inl f \<Rightarrow> Inl f
        | Inr average \<Rightarrow>
            (case (name (us ! 0), email (us ! 0)) of
               (Some nm, Some em) \<Rightarrow>
                 Inr (''Loaded '' @ show_int (int (length us)) @ '' users. Average age: ''
                      @ show_int (sint average) @ [NL]
                      @ ''First user: '' @ nm @ '' ('' @ show_int (sint (age (us ! 0))) @ '') <''
                      @ em @ ''>'' @ [NL])
             | _ \<Rightarrow> Inl NullDereference))"

definition bug2_main :: "allocator \<Rightarrow> string \<Rightarrow> fault + string" where
  "bug2_main alloc stdin =
     (case bug2_loop alloc stdin \<lparr>users = [], user_capacity = 0\<rparr> of
        Inl f \<Rightarrow> Inl f
      | Inr st \<Rightarrow> bug2_report (users st))"

section \<open>bug3.c: books and their average year\<close>

text \<open>
  The program of bug2.c with books: the fields are separated by \<open>|\<close>, the year is the
  third field, and the input is a file. \<open>sizeof(struct book)\<close> is 24.
\<close>

record book =
  title :: "string option"
  author :: "string option"
  year :: cint

record book_table =
  books :: "book list"
  book_capacity :: cint

definition add_book :: "allocator \<Rightarrow> string \<Rightarrow> string \<Rightarrow> cint \<Rightarrow> book_table \<Rightarrow> fault + book_table" where
  "add_book alloc ti au yr st =
     (let entry = \<lparr>title = strdup alloc ti, author = strdup alloc au, year = yr\<rparr>
      in if int (length (books st)) \<ge> sint (book_capacity st) then
           (case (if book_capacity st = 0 then Inr 2 else int_result (sint (book_capacity st) * 2)) of
              Inl f \<Rightarrow> Inl f
            | Inr new_capacity \<Rightarrow>
                if \<not> granted alloc (unat (scast new_capacity * 24 :: size_t)) then Inr st
                else Inr \<lparr>books = books st @ [entry], book_capacity = new_capacity\<rparr>)
         else Inr (st\<lparr>books := books st @ [entry]\<rparr>))"

definition parse_line_book :: "allocator \<Rightarrow> string \<Rightarrow> book_table \<Rightarrow> fault + book_table" where
  "parse_line_book alloc line st =
     (let fields = take 3 (strtok_all ''|'' line)
      in if length fields < 3 then Inr st
         else add_book alloc (trim (fields ! 0)) (trim (fields ! 1)) (atoi (trim (fields ! 2))) st)"

function bug3_loop :: "allocator \<Rightarrow> string \<Rightarrow> book_table \<Rightarrow> fault + book_table" where
  "bug3_loop alloc input st =
     (case fgets 1024 input of
        None \<Rightarrow> Inr st
      | Some (line, rest) \<Rightarrow>
          (case parse_line_book alloc (strip_newline line) st of
             Inl f \<Rightarrow> Inl f
           | Inr st1 \<Rightarrow> bug3_loop alloc rest st1))"
  by pat_completeness auto
termination
proof (relation "measure (\<lambda>(alloc, input, st). length input)")
  show "wf (measure (\<lambda>(alloc, input, st). length input))" by simp
next
  fix alloc :: allocator and input line rest :: string and st st1 :: book_table and x2
  assume "fgets 1024 input = Some x2" and "(line, rest) = x2"
  then have "length rest < length input"
    using fgets_shorter [of input line rest] by simp
  then show "((alloc, rest, st1), (alloc, input, st)) \<in> measure (\<lambda>(alloc, input, st). length input)"
    by simp
qed

declare bug3_loop.simps [simp del]

definition bug3_report :: "book list \<Rightarrow> fault + string" where
  "bug3_report bs =
     (if bs = [] then Inl DivisionByZero
      else case long_result (sum_list (map (\<lambda>b. sint (year b)) bs) sdiv int (length bs)) of
          Inl f \<Rightarrow> Inl f
        | Inr avg_year \<Rightarrow>
            (case (title (bs ! 0), author (bs ! 0)) of
               (Some ti, Some au) \<Rightarrow>
                 Inr (''Loaded '' @ show_int (int (length bs)) @ '' books. Average year: ''
                      @ show_int (sint avg_year) @ [NL]
                      @ ''First book: '' @ [CHR 0x22] @ ti @ [CHR 0x22] @ '' by '' @ au @ '' (''
                      @ show_int (sint (year (bs ! 0))) @ '')'' @ [NL])
             | _ \<Rightarrow> Inl NullDereference))"

definition bug3_main :: "allocator \<Rightarrow> string \<Rightarrow> fault + string" where
  "bug3_main alloc input =
     (case bug3_loop alloc input \<lparr>books = [], book_capacity = 0\<rparr> of
        Inl f \<Rightarrow> Inl f
      | Inr st \<Rightarrow> bug3_report (books st))"

section \<open>bug7.c: the configuration store\<close>

text \<open>
  \<open>struct kv\<close> holds two strings, each possibly \<open>NULL\<close>. The state is the block
  \<open>pairs\<close> with its \<open>pair_capacity\<close> entries and \<open>pair_count\<close>; \<open>sizeof(struct kv)\<close> is 16.
\<close>

record kv =
  key :: "string option"
  val :: "string option"

record store =
  pairs :: "kv list"
  pair_count :: nat

definition no_pair :: kv where
  "no_pair = \<lparr>key = None, val = None\<rparr>"

definition ensure_capacity_kv :: "allocator \<Rightarrow> store \<Rightarrow> store" where
  "ensure_capacity_kv alloc st =
     (if pair_count st \<ge> length (pairs st) then
        (let new_capacity = (if length (pairs st) = 0 then 4 else length (pairs st) * 2)
         in if \<not> granted alloc (new_capacity * 16) then st
            else st\<lparr>pairs := pairs st @ replicate (new_capacity - length (pairs st)) no_pair\<rparr>)
      else st)"

text \<open>The index of the first of the \<open>pair_count\<close> pairs whose key is \<open>k\<close>.\<close>

definition find_key :: "store \<Rightarrow> string \<Rightarrow> nat option" where
  "find_key st k =
     (case filter (\<lambda>i. key (pairs st ! i) = Some k) [0..<pair_count st] of
        [] \<Rightarrow> None
      | i # _ \<Rightarrow> Some i)"

definition set_pair :: "allocator \<Rightarrow> string \<Rightarrow> string \<Rightarrow> store \<Rightarrow> store" where
  "set_pair alloc k v st =
     (case find_key st k of
        Some i \<Rightarrow>
          (case strdup alloc v of
             Some new_val \<Rightarrow> st\<lparr>pairs := (pairs st)[i := (pairs st ! i)\<lparr>val := Some new_val\<rparr>]\<rparr>
           | None \<Rightarrow> st)
      | None \<Rightarrow>
          (let st1 = ensure_capacity_kv alloc st
           in if pair_count st1 < length (pairs st1)
              then st1\<lparr>pairs := (pairs st1)[pair_count st1 :=
                             \<lparr>key = strdup alloc k, val = strdup alloc v\<rparr>],
                       pair_count := pair_count st1 + 1\<rparr>
              else st1))"

text \<open>
  \<open>remove_key(key)\<close>: when the key is not there and the store is not empty, the entry
  \<open>pairs[pair_count + 10]\<close> is read, which lies in the block only if the capacity is
  larger. A key that is found is freed and the last pair moves into its place.
\<close>

definition remove_key :: "string \<Rightarrow> store \<Rightarrow> fault + store" where
  "remove_key k st =
     (case find_key st k of
        None \<Rightarrow>
          (if pair_count st > 0 \<and> pair_count st + 10 \<ge> length (pairs st) then Inl OutOfBounds
           else Inr st)
      | Some found \<Rightarrow>
          (let ps = (pairs st)[found := no_pair];
               ps1 = (if found \<noteq> pair_count st - 1
                      then ps[found := ps ! (pair_count st - 1), pair_count st - 1 := no_pair]
                      else ps)
           in Inr \<lparr>pairs = ps1, pair_count = pair_count st - 1\<rparr>))"

text \<open>
  \<open>compute_stats()\<close>: with no pair the function computes \<open>100 / (long) pair_count\<close>;
  otherwise the average of \<open>strlen\<close> over the values that are not \<open>NULL\<close>.
\<close>

definition compute_stats :: "store \<Rightarrow> fault + string" where
  "compute_stats st =
     (if pair_count st = 0 then Inl DivisionByZero
      else Inr (''Average length: ''
                @ show_int (sum_list (map (\<lambda>p. case val p of None \<Rightarrow> 0 | Some v \<Rightarrow> int (length v))
                                       (take (pair_count st) (pairs st)))
                            sdiv int (pair_count st))
                @ [NL]))"

definition dump :: "store \<Rightarrow> string" where
  "dump st =
     concat (map (\<lambda>p. case (key p, val p) of
                         (Some k, Some v) \<Rightarrow> k @ ''='' @ v @ [NL]
                       | _ \<Rightarrow> [])
               (take (pair_count st) (pairs st)))"

text \<open>
  One line of the input file. The command is the first token between spaces; \<open>strtok(NULL,
  "")\<close> then gives what follows the space after it, or \<open>NULL\<close> when nothing follows.
\<close>

definition rest_of_line :: "string \<Rightarrow> string option" where
  "rest_of_line line =
     (let after = drop 1 (dropWhile (\<lambda>c. c \<noteq> CHR '' '') (dropWhile (\<lambda>c. c = CHR '' '') line))
      in if after = [] then None else Some after)"

definition bug7_line :: "allocator \<Rightarrow> string \<Rightarrow> store \<Rightarrow> fault + (store \<times> string)" where
  "bug7_line alloc line st =
     (case strtok_all '' '' line of
        [] \<Rightarrow> Inr (st, [])
      | cmd # _ \<Rightarrow>
          if cmd = ''SET'' then
            (case rest_of_line line of
               None \<Rightarrow> Inr (st, [])
             | Some kv \<Rightarrow>
                 if CHR ''='' \<in> set kv
                 then Inr (set_pair alloc (takeWhile (\<lambda>c. c \<noteq> CHR ''='') kv)
                             (drop 1 (dropWhile (\<lambda>c. c \<noteq> CHR ''='') kv)) st, [])
                 else Inr (st, []))
          else if cmd = ''REMOVE'' then
            (case rest_of_line line of
               None \<Rightarrow> Inr (st, [])
             | Some k \<Rightarrow>
                 (case remove_key (trim k) st of Inl f \<Rightarrow> Inl f | Inr st1 \<Rightarrow> Inr (st1, [])))
          else if cmd = ''COMPUTE'' then
            (case compute_stats st of Inl f \<Rightarrow> Inl f | Inr out \<Rightarrow> Inr (st, out))
          else if cmd = ''DUMP'' then Inr (st, dump st)
          else Inr (st, []))"

function bug7_loop :: "allocator \<Rightarrow> string \<Rightarrow> store \<Rightarrow> string \<Rightarrow> fault + string" where
  "bug7_loop alloc input st out =
     (case fgets 1024 input of
        None \<Rightarrow> Inr out
      | Some (line, rest) \<Rightarrow>
          (case bug7_line alloc (strip_newline line) st of
             Inl f \<Rightarrow> Inl f
           | Inr (st1, printed) \<Rightarrow> bug7_loop alloc rest st1 (out @ printed)))"
  by pat_completeness auto
termination
proof (relation "measure (\<lambda>(alloc, input, st, out). length input)")
  show "wf (measure (\<lambda>(alloc, input, st, out). length input))" by simp
next
  fix alloc :: allocator and input line rest out printed :: string and st st1 :: store
    and x2 :: "string \<times> string" and b :: "store \<times> string"
  assume "fgets 1024 input = Some x2" and "(line, rest) = x2"
  then have "length rest < length input"
    using fgets_shorter [of input line rest] by simp
  then show "((alloc, rest, st1, out @ printed), (alloc, input, st, out))
      \<in> measure (\<lambda>(alloc, input, st, out). length input)"
    by simp
qed

declare bug7_loop.simps [simp del]

text \<open>\<open>main\<close> on the content of the input file.\<close>

definition bug7_main :: "allocator \<Rightarrow> string \<Rightarrow> fault + string" where
  "bug7_main alloc input = bug7_loop alloc input \<lparr>pairs = [], pair_count = 0\<rparr> []"

section \<open>bug8.c: the file of documents\<close>

text \<open>
  The file is a sequence of bytes (\<open>char\<close>). \<open>fread(&x, 4, 1, f)\<close> reads one 32-bit value
  in the byte order of the target, little-endian, and fails when fewer than four bytes are
  left. Counts and lengths are \<open>uint32_t\<close>; they enter sums of 64 bits that cannot wrap, so
  they are natural numbers here. A buffer cell that \<open>fread\<close> did not reach is indeterminate
  (\<open>None\<close>), and so is an output byte copied from it.
\<close>

definition le32 :: "string \<Rightarrow> nat" where
  "le32 bs = of_char (bs ! 0) + 256 * of_char (bs ! 1) + 65536 * of_char (bs ! 2)
             + 16777216 * of_char (bs ! 3)"

definition read_u32 :: "string \<Rightarrow> (nat \<times> string) option" where
  "read_u32 input = (if length input \<ge> 4 then Some (le32 (take 4 input), drop 4 input) else None)"

text \<open>
  \<open>buf = malloc(length); fread(buf, 1, length, f)\<close>: the buffer has \<open>length\<close> cells, of
  which as many are written as the file still has bytes. The result of \<open>fread\<close> is compared
  with \<open>length\<close> in an \<open>if\<close> whose body is empty.
\<close>

definition read_payload :: "nat \<Rightarrow> string \<Rightarrow> char option list" where
  "read_payload len input = map Some (take len input) @ replicate (len - length input) None"

record Document =
  doc_data :: "char option list"
  doc_length :: nat
  doc_allocated :: bool

text \<open>
  The reading loop, for the \<open>n\<close> documents still to read: it stops at the first length
  that cannot be read or buffer that cannot be allocated. The result is the documents
  stored, all with \<open>allocated = 1\<close>; the entries after them stay unallocated.
\<close>

fun read_docs :: "allocator \<Rightarrow> nat \<Rightarrow> string \<Rightarrow> Document list" where
  "read_docs alloc 0 input = []"
| "read_docs alloc (Suc n) input =
     (case read_u32 input of
        None \<Rightarrow> []
      | Some (len, rest) \<Rightarrow>
          if \<not> granted alloc len \<and> len > 0 then []
          else \<lparr>doc_data = read_payload len rest, doc_length = len, doc_allocated = True\<rparr>
               # read_docs alloc n (drop len rest))"

text \<open>
  \<open>main\<close> on the content of the file; \<open>sizeof(struct Document)\<close> is 16. Both branches
  of \<open>if (actual_count == 0)\<close> divide by \<open>actual_count\<close>. The result is the bytes written
  to standard output.
\<close>

definition bug8_main :: "allocator \<Rightarrow> string \<Rightarrow> fault + char option list" where
  "bug8_main alloc input =
     (case read_u32 input of
        None \<Rightarrow> Inr []
      | Some (doc_count, rest) \<Rightarrow>
          if \<not> granted alloc (doc_count * 16) \<and> doc_count > 0 then Inr []
          else
            (let docs = read_docs alloc doc_count rest
             in if docs = [] then Inl DivisionByZero
                else Inr (map Some (''Average length: ''
                                    @ show_nat (sum_list (map doc_length docs) div length docs)
                                    @ [NL])
                          @ take (min (doc_length (docs ! 0)) 100) (doc_data (docs ! 0))
                          @ [Some NL])))"

section \<open>bug10.c: the file of records\<close>

text \<open>
  \<open>struct Field\<close> and \<open>struct Record\<close>; the record is \<open>Record_s\<close> here and its fields
  carry the prefix \<open>r_\<close>.
\<close>

record Field =
  f_data :: "char option list"
  f_length :: nat
  f_allocated :: bool

record Record_s =
  r_fields :: "Field list"
  r_field_count :: nat
  r_allocated :: bool

definition no_record :: Record_s where
  "no_record = \<lparr>r_fields = [], r_field_count = 0, r_allocated = False\<rparr>"

text \<open>
  The inner loop over the \<open>n\<close> fields still to read: the fields, or \<open>None\<close> when
  \<open>all_ok\<close> is cleared, and the input left. A length that cannot be read leaves the file
  at its end.
\<close>

fun read_fields :: "allocator \<Rightarrow> nat \<Rightarrow> string \<Rightarrow> Field list option \<times> string" where
  "read_fields alloc 0 input = (Some [], input)"
| "read_fields alloc (Suc n) input =
     (case read_u32 input of
        None \<Rightarrow> (None, [])
      | Some (len, rest) \<Rightarrow>
          if \<not> granted alloc len \<and> len > 0 then (None, rest)
          else (case read_fields alloc n (drop len rest) of
                  (None, r) \<Rightarrow> (None, r)
                | (Some fs, r) \<Rightarrow>
                    (Some (\<lparr>f_data = read_payload len rest, f_length = len, f_allocated = True\<rparr> # fs),
                     r)))"

text \<open>
  The outer loop over the \<open>n\<close> records still to read: it stops when a field count cannot
  be read, and goes on to the next record when the field array cannot be allocated or a
  field failed. \<open>sizeof(struct Field)\<close> is 16.
\<close>

fun read_records :: "allocator \<Rightarrow> nat \<Rightarrow> string \<Rightarrow> Record_s list" where
  "read_records alloc 0 input = []"
| "read_records alloc (Suc n) input =
     (case read_u32 input of
        None \<Rightarrow> []
      | Some (fc, rest) \<Rightarrow>
          if \<not> granted alloc (fc * 16) \<and> fc > 0 then no_record # read_records alloc n rest
          else (case read_fields alloc fc rest of
                  (None, r) \<Rightarrow> no_record # read_records alloc n r
                | (Some fs, r) \<Rightarrow>
                    \<lparr>r_fields = fs, r_field_count = fc, r_allocated = True\<rparr> # read_records alloc n r))"

text \<open>
  \<open>main\<close> on the content of the file; \<open>sizeof(struct Record)\<close> is 16. After the average,
  the first field of the first allocated record that has a field is written, up to 50
  bytes.
\<close>

definition bug10_main :: "allocator \<Rightarrow> string \<Rightarrow> fault + char option list" where
  "bug10_main alloc input =
     (case read_u32 input of
        None \<Rightarrow> Inr []
      | Some (record_count, rest) \<Rightarrow>
          if \<not> granted alloc (record_count * 16) \<and> record_count > 0 then Inr []
          else
            (let records = filter r_allocated (read_records alloc record_count rest)
             in if records = [] then Inl DivisionByZero
                else Inr (map Some (''Average fields per record: ''
                                    @ show_nat (sum_list (map r_field_count records) div length records)
                                    @ [NL])
                          @ (case filter (\<lambda>r. r_field_count r > 0) records of
                               [] \<Rightarrow> []
                             | r # _ \<Rightarrow>
                                 take (min (f_length (r_fields r ! 0)) 50) (f_data (r_fields r ! 0))
                                 @ [Some NL]))))"

section \<open>bug9.c: the file of a directed graph\<close>

text \<open>
  \<open>struct AdjList\<close>: the neighbours stored (\<open>count\<close> is their number) and the capacity of
  the block, 0 while \<open>neighbors\<close> is \<open>NULL\<close>. Node numbers are \<open>uint32_t\<close>.
\<close>

record AdjList =
  neighbors :: "nat list"
  capacity :: nat

definition no_edges :: AdjList where
  "no_edges = \<lparr>neighbors = [], capacity = 0\<rparr>"

text \<open>
  The loop over the \<open>n\<close> edges still to read. It stops when an edge cannot be read. An
  edge whose source is not a node writes to \<open>graphs[src]\<close>, outside the array. Otherwise the
  target is appended to the list of the source, whose block doubles when it is full; when
  that \<open>realloc\<close> fails the edge is dropped.
\<close>

fun read_edges :: "allocator \<Rightarrow> nat \<Rightarrow> string \<Rightarrow> AdjList list \<Rightarrow> fault + AdjList list" where
  "read_edges alloc 0 input graphs = Inr graphs"
| "read_edges alloc (Suc n) input graphs =
     (case read_u32 input of
        None \<Rightarrow> Inr graphs
      | Some (src, rest) \<Rightarrow>
          (case read_u32 rest of
             None \<Rightarrow> Inr graphs
           | Some (dst, rest') \<Rightarrow>
               if src \<ge> length graphs then Inl OutOfBounds
               else if length (neighbors (graphs ! src)) \<ge> capacity (graphs ! src) then
                 (let new_cap = (if capacity (graphs ! src) = 0 then 4
                                 else capacity (graphs ! src) * 2)
                  in if \<not> granted alloc (new_cap * 4) then read_edges alloc n rest' graphs
                     else read_edges alloc n rest'
                            (graphs[src := \<lparr>neighbors = neighbors (graphs ! src) @ [dst],
                                            capacity = new_cap\<rparr>]))
               else read_edges alloc n rest'
                      (graphs[src := (graphs ! src)
                                 \<lparr>neighbors := neighbors (graphs ! src) @ [dst]\<rparr>])))"

text \<open>
  \<open>main\<close> on the content of the file; \<open>sizeof(struct AdjList)\<close> is 24. Both branches of
  \<open>if (node_count == 0)\<close> divide by \<open>node_count\<close>.
\<close>

definition bug9_main :: "allocator \<Rightarrow> string \<Rightarrow> fault + string" where
  "bug9_main alloc input =
     (case read_u32 input of
        None \<Rightarrow> Inr []
      | Some (node_count, rest) \<Rightarrow>
          (case read_u32 rest of
             None \<Rightarrow> Inr []
           | Some (edge_count, rest') \<Rightarrow>
               if \<not> granted alloc (node_count * 24) \<and> node_count > 0 then Inr []
               else
                 (case read_edges alloc edge_count rest' (replicate node_count no_edges) of
                    Inl f \<Rightarrow> Inl f
                  | Inr graphs \<Rightarrow>
                      if node_count = 0 then Inl DivisionByZero
                      else Inr (''Average out-degree: ''
                                @ show_nat (sum_list (map (\<lambda>g. length (neighbors g)) graphs)
                                            div node_count)
                                @ [NL]
                                @ (if capacity (graphs ! 0) \<noteq> 0
                                   then ''Edges from node 0:''
                                        @ concat (map (\<lambda>d. '' '' @ show_nat d) (neighbors (graphs ! 0)))
                                        @ [NL]
                                   else [])))))"

section \<open>Auxiliary definitions for the properties\<close>

text \<open>The allocator that grants every request up to \<open>PTRDIFF_MAX\<close>.\<close>

definition always :: allocator where
  "always n = True"

text \<open>
  A token in which \<open>strtol\<close> finds no digit to convert: after the white space and one
  optional sign, the string ends or goes on with a character that is not a digit.
\<close>

definition no_digits :: "string \<Rightarrow> bool" where
  "no_digits s =
     (let s1 = dropWhile isspace s;
          s2 = (if s1 \<noteq> [] \<and> (hd s1 = CHR ''-'' \<or> hd s1 = CHR ''+'') then tl s1 else s1)
      in s2 = [] \<or> \<not> isdigit (hd s2))"

text \<open>
  The commands of bug6.c that create a slot at an index are \<open>CREATE\<close> and \<open>JOIN\<close>, with
  the index as first argument; for bug5.cpp they are \<open>CREATE_ARRAY\<close> and \<open>JOIN_ARRAYS\<close>.
  A table in which no slot was ever created at \<open>i\<close> is one reached from the empty table by
  command lines none of which creates a slot at \<open>i\<close>, under any allocator at each line.
\<close>

definition creates_at :: "string list \<Rightarrow> size_t \<Rightarrow> bool" where
  "creates_at tokens i =
     ((tokens ! 0 = ''CREATE'' \<and> length tokens > 2 \<or> tokens ! 0 = ''JOIN'' \<and> length tokens > 3)
      \<and> ARG_L tokens 1 = i)"

inductive never_created :: "size_t \<Rightarrow> table \<Rightarrow> bool" for i :: size_t where
  start: "never_created i []"
| command: "never_created i arrays \<Longrightarrow> \<not> creates_at tokens i \<Longrightarrow>
     dispatch alloc tokens arrays = Inr (arrays', out) \<Longrightarrow> never_created i arrays'"

definition creates_at_cpp :: "string list \<Rightarrow> size_t \<Rightarrow> bool" where
  "creates_at_cpp tokens i =
     ((tokens ! 0 = ''CREATE_ARRAY'' \<and> length tokens > 2
       \<or> tokens ! 0 = ''JOIN_ARRAYS'' \<and> length tokens > 3)
      \<and> toL tokens 1 = i)"

inductive never_created_cpp :: "size_t \<Rightarrow> table \<Rightarrow> bool" for i :: size_t where
  start_cpp: "never_created_cpp i []"
| command_cpp: "never_created_cpp i arrays \<Longrightarrow> \<not> creates_at_cpp tokens i \<Longrightarrow>
     dispatch_cpp alloc tokens arrays = Inr (arrays', cout, cerr) \<Longrightarrow> never_created_cpp i arrays'"

section \<open>Evaluation and loop lemmas\<close>

lemma store_loop_eq: "n \<le> length cs \<Longrightarrow> store_loop n v cs = replicate n (Some v) @ drop n cs"
proof (induction n)
  case 0
  then show ?case by (simp add: store_loop_def)
next
  case (Suc n)
  then have n: "n < length cs" and ih: "store_loop n v cs = replicate n (Some v) @ drop n cs"
    by simp_all
  have "store_loop (Suc n) v cs = (store_loop n v cs)[n := Some v]"
    by (simp add: store_loop_def)
  also have "\<dots> = replicate n (Some v) @ (drop n cs)[0 := Some v]"
    by (simp add: ih list_update_append)
  also have "(drop n cs)[0 := Some v] = Some v # drop (Suc n) cs"
    using n by (simp add: Cons_nth_drop_Suc [symmetric])
  finally show ?case
    by (simp add: replicate_app_Cons_same)
qed

lemma store_loop_fresh: "store_loop n v (replicate n None) = replicate n (Some v)"
  by (simp add: store_loop_eq)

lemma replicate_numeral: "replicate (numeral k) x = x # replicate (pred_numeral k) x"
  by (simp add: numeral_eq_Suc)

lemma takeWhile_hd: "xs = [] \<or> \<not> P (hd xs) \<Longrightarrow> takeWhile P xs = []"
  by (cases xs) auto

lemmas clib_eval = strtok_all.simps atoi_def strtol_def decimal_def isspace_def isdigit_def
  digit_value_def show_int_def show_nat.simps int_result_def long_result_def fgets_def
  strip_newline_def c_str_def NL_def NUL_def LONG_MAX_def PTRDIFF_MAX_def granted_def always_def

lemmas bug1_eval = bug1_main.simps process_command_def calc_def

lemmas bug6_eval = bug6_main_def bug6_loop.simps dispatch_def ARG_L_def create_array_def
  ensure_capacity_def fill_array_def free_array_def compute_stat_def print_array_def
  splice_array_def join_arrays_def join_copy_def source_cells_def get_def read_cell_def
  c_free_def c_realloc_def c_memcpy_def store_loop_eq resize_cells_def empty_slot_def
  array_count_def replicate_numeral upt_rec word_le_nat_alt word_less_nat_alt

lemmas bug5_eval = bug5_main_def bug5_loop.simps dispatch_cpp_def toL_def getline_def
  split_spaces.simps create_array_cpp_def ensure_capacity_cpp_def fill_array_cpp_def
  free_array_cpp_def compute_stat_cpp_def print_array_cpp_def splice_array_cpp_def
  join_arrays_cpp_def join_copy_def source_cells_def get_def read_cell_def c_free_def
  c_realloc_def c_memcpy_def store_loop_eq resize_cells_def empty_slot_def replicate_numeral
  upt_rec word_le_nat_alt word_less_nat_alt

lemmas bug2_eval = bug2_main_def bug2_loop.simps parse_line_def add_user_def strdup_def trim_def
  bug2_report_def

lemmas bug7_eval = bug7_main_def bug7_loop.simps bug7_line_def rest_of_line_def trim_def
  compute_stats_def dump_def set_pair_def remove_key_def find_key_def ensure_capacity_kv_def
  strdup_def no_pair_def replicate_numeral upt_rec

lemmas bug3_eval = bug3_main_def bug3_loop.simps parse_line_book_def add_book_def strdup_def
  trim_def bug3_report_def

lemmas bug8_eval = bug8_main_def bug10_main_def read_u32_def le32_def read_payload_def
  replicate_numeral

lemmas bug9_eval = bug9_main_def read_u32_def le32_def no_edges_def replicate_numeral

section \<open>Properties of bug1.c\<close>

text \<open>
  C9. On the input line \<open>CALC 10 + 5\<close> the program prints exactly the line
  \<open>Result: 15\<close>, whether or not the input line ends with a newline, and whatever the
  allocator does.
\<close>

theorem calc_addition:
  "bug1_main alloc ''CALC 10 + 5\<newline>'' [] = Inr ''Result: 15\<newline>''
   \<and> bug1_main alloc ''CALC 10 + 5'' [] = Inr ''Result: 15\<newline>''"
  by (simp add: clib_eval bug1_eval)

text \<open>
  C6. On the input line \<open>CALC 10 / 0\<close> the program evaluates \<open>a / b\<close> with \<open>b = 0\<close>:
  the run ends in the division-by-zero fault and prints nothing. There is no guard and no
  error branch.
\<close>

theorem calc_division_by_zero:
  "bug1_main alloc ''CALC 10 / 0\<newline>'' [] = Inl DivisionByZero
   \<and> process_command alloc [''CALC'', ''10'', ''/'', ''0''] stdin = Inl DivisionByZero"
  by (simp add: clib_eval bug1_eval)

section \<open>Properties of the number parsing\<close>

lemma strtol_no_digits:
  assumes nd: "no_digits t"
  shows "strtol t = 0"
proof -
  let ?s1 = "dropWhile isspace t"
  let ?s2 = "if ?s1 \<noteq> [] \<and> (hd ?s1 = CHR ''-'' \<or> hd ?s1 = CHR ''+'') then tl ?s1 else ?s1"
  have a: "?s2 = [] \<or> \<not> isdigit (hd ?s2)"
    using nd unfolding no_digits_def Let_def .
  have b: "takeWhile isdigit ?s2 = []"
    using a by (rule takeWhile_hd [where P = isdigit])
  show ?thesis
    unfolding strtol_def Let_def b by (simp add: decimal_def LONG_MAX_def)
qed

text \<open>
  C8, as the code has it. A token with no digit to convert is read as 0 by \<open>strtol\<close> and
  by \<open>atoi\<close>, and so by \<open>ARG_L\<close>; a token that is missing is read as 0 by \<open>ARG_L\<close> and by
  \<open>toL\<close>. No parse fails.
\<close>

theorem strtol_default_zero:
  "(no_digits s \<longrightarrow> strtol s = 0 \<and> atoi s = 0)
   \<and> (length tokens \<le> i \<longrightarrow> ARG_L tokens i = 0 \<and> toL tokens i = 0)
   \<and> (i < length tokens \<and> no_digits (tokens ! i) \<longrightarrow> ARG_L tokens i = 0)"
  using strtol_no_digits by (auto simp: atoi_def ARG_L_def toL_def)

theorem strtol_default_zero_witness:
  "no_digits ''abc'' \<and> strtol ''abc'' = 0 \<and> atoi ''abc'' = 0
   \<and> length [''FREE''] \<le> 1 \<and> ARG_L [''FREE''] 1 = 0 \<and> toL [''FREE''] 1 = 0
   \<and> 1 < length [''CREATE'', ''abc'', ''5''] \<and> no_digits ([''CREATE'', ''abc'', ''5''] ! 1)
   \<and> ARG_L [''CREATE'', ''abc'', ''5''] 1 = 0"
proof -
  have nd: "no_digits ''abc''"
    by (simp add: no_digits_def isspace_def isdigit_def)
  have nd': "no_digits ([''CREATE'', ''abc'', ''5''] ! 1)"
    using nd by simp
  show ?thesis
    using nd nd' strtol_default_zero [of "''abc''" "[''FREE'']" 1]
      strtol_default_zero [of "''abc''" "[''CREATE'', ''abc'', ''5'']" 1]
    by simp
qed

text \<open>
  C8 as stated fails: the index token \<open>abc\<close> is not a number, and the commands that
  use it work on slot 0. The run creates slot 0 with five cells, fills it with 7 and
  prints it.
\<close>

theorem not_a_number_counterexample:
  "ARG_L [''CREATE'', ''abc'', ''5''] 1 = 0
   \<and> bug6_main always ''CREATE abc 5\<newline>FILL abc 7\<newline>PRINT 0 0 4\<newline>''
       = Inr ''7 7 7 7 7 \<newline>''"
  by (simp add: clib_eval bug6_eval)


section \<open>Properties of the programs that print an average\<close>

text \<open>
  C1. With no user, book, pair, document, record or node stored, the programs do compute
  the quotient with divisor 0: bug2.c and bug3.c on empty input, bug7.c on \<open>COMPUTE\<close> as
  first command (\<open>compute_stats\<close> with \<open>pair_count = 0\<close>, whatever the block holds),
  bug8.c and bug10.c on a file that announces no document or record, bug9.c on a file that
  announces no node and no edge. Each run ends in the division-by-zero fault; none reports
  an empty result.
\<close>

theorem average_of_nothing_divides_by_zero:
  "bug2_main alloc [] = Inl DivisionByZero
   \<and> bug2_report [] = Inl DivisionByZero
   \<and> bug3_main alloc [] = Inl DivisionByZero
   \<and> compute_stats \<lparr>pairs = ps, pair_count = 0\<rparr> = Inl DivisionByZero
   \<and> bug7_main alloc ''COMPUTE\<newline>'' = Inl DivisionByZero
   \<and> bug8_main alloc [CHR 0x00, CHR 0x00, CHR 0x00, CHR 0x00] = Inl DivisionByZero
   \<and> bug10_main alloc [CHR 0x00, CHR 0x00, CHR 0x00, CHR 0x00] = Inl DivisionByZero
   \<and> bug9_main alloc [CHR 0x00, CHR 0x00, CHR 0x00, CHR 0x00,
                        CHR 0x00, CHR 0x00, CHR 0x00, CHR 0x00] = Inl DivisionByZero"
  by (simp add: clib_eval bug2_eval bug3_eval bug7_eval bug8_eval bug9_eval)

section \<open>Properties of the binary readers\<close>

lemma read_docs_truncated:
  assumes "read_u32 input = Some (len, rest)" and "length rest < len" and "granted alloc len"
  shows "read_docs alloc (Suc n) input
    = \<lparr>doc_data = map Some rest @ replicate (len - length rest) None, doc_length = len,
        doc_allocated = True\<rparr> # read_docs alloc n []"
  using assms by (simp add: read_payload_def)

text \<open>
  C3. A declared length of 5 with only the two bytes \<open>Hi\<close> left in the file: bug8.c
  stores the document with length 5 and a buffer of five cells of which three were never
  written, reports the average length 5 and writes the five cells; bug10.c does the same
  with the field. Neither run signals the truncation.
\<close>

theorem truncated_payload_is_stored:
  "read_docs always 1 ([CHR 0x05, CHR 0x00, CHR 0x00, CHR 0x00] @ ''Hi'')
     = [\<lparr>doc_data = [Some CHR ''H'', Some CHR ''i'', None, None, None], doc_length = 5,
         doc_allocated = True\<rparr>]
   \<and> bug8_main always ([CHR 0x01, CHR 0x00, CHR 0x00, CHR 0x00,
                         CHR 0x05, CHR 0x00, CHR 0x00, CHR 0x00] @ ''Hi'')
     = Inr (map Some ''Average length: 5\<newline>Hi'' @ [None, None, None, Some CHR ''\<newline>''])
   \<and> bug10_main always ([CHR 0x01, CHR 0x00, CHR 0x00, CHR 0x00,
                          CHR 0x01, CHR 0x00, CHR 0x00, CHR 0x00,
                          CHR 0x05, CHR 0x00, CHR 0x00, CHR 0x00] @ ''Hi'')
     = Inr (map Some ''Average fields per record: 1\<newline>Hi''
            @ [None, None, None, Some CHR ''\<newline>''])"
  by (simp add: clib_eval bug8_eval)

section \<open>Properties of the array managers\<close>

subsection \<open>An absent slot stays absent\<close>

lemma get_None_iff: "get t i = None \<longleftrightarrow> (unat i \<ge> length t \<or> \<not> allocated (t ! unat i))"
  by (simp add: get_def)

lemma get_Some_iff: "get t i = Some a \<longleftrightarrow> (unat i < length t \<and> allocated (t ! unat i) \<and> a = t ! unat i)"
  by (auto simp: get_def)

lemma ensure_capacity_nth:
  assumes "ensure_capacity alloc idx t = Inr t'" and "j < length t'"
  shows "t' ! j = (if j < length t then t ! j else empty_slot)"
  using assms
  by (auto simp: ensure_capacity_def Let_def nth_append split: if_splits)

lemma ensure_capacity_get:
  assumes e: "ensure_capacity alloc idx t = Inr t'" and g: "get t i = None"
  shows "get t' i = None"
proof (cases "unat i < length t'")
  case True
  then have "t' ! unat i = (if unat i < length t then t ! unat i else empty_slot)"
    using e by (rule ensure_capacity_nth [rotated])
  then show ?thesis
    using g by (auto simp: get_None_iff empty_slot_def)
next
  case False
  then show ?thesis by (simp add: get_None_iff)
qed

lemma create_array_get_other:
  assumes c: "create_array alloc idx n t = Inr t'" and ne: "idx \<noteq> i" and g: "get t i = None"
  shows "get t' i = None"
proof -
  have u: "unat idx \<noteq> unat i" using ne by (simp add: word_unat_eq_iff)
  obtain t1 where e: "ensure_capacity alloc idx t = Inr t1"
    using c by (auto simp: create_array_def split: sum.splits)
  have g1: "get t1 i = None" using e g by (rule ensure_capacity_get)
  show ?thesis
    using c e g1 u
    by (auto simp: create_array_def Let_def get_None_iff split: if_splits)
qed

lemma fill_array_get:
  assumes f: "fill_array idx v t = Inr t'" and g: "get t i = None"
  shows "get t' i = None"
  using f g
  by (auto simp: fill_array_def get_None_iff get_def nth_list_update
      split: option.splits if_splits pointer.splits)

lemma free_array_get:
  assumes f: "free_array idx t = Inr t'" and g: "get t i = None"
  shows "get t' i = None"
  using f g
  by (auto simp: free_array_def get_None_iff nth_list_update empty_slot_def c_free_def
      split: sum.splits if_splits)

lemma nth_update_cases: "(t[d := x]) ! j = (if j = d \<and> d < length t then x else t ! j)"
  by (cases "d < length t") (auto simp: nth_list_update list_update_beyond)

lemma splice_loop_shape:
  "splice_loop d s dsize off is t = Inr t' \<Longrightarrow>
     length t' = length t \<and> (\<forall>j. allocated (t' ! j) = allocated (t ! j) \<and> size_a (t' ! j) = size_a (t ! j))
     \<and> (\<forall>j. j \<noteq> d \<longrightarrow> t' ! j = t ! j)"
proof (induction "is" arbitrary: t)
  case Nil
  then show ?case by simp
next
  case (Cons i "is")
  from Cons.prems obtain v cs where
    cs: "data (t ! d) = Block cs" and
    rest: "splice_loop d s dsize off is
             (t[d := (t ! d)\<lparr>data := Block (cs[unat (dsize + of_nat i) := Some v])\<rparr>]) = Inr t'"
    by (auto split: sum.splits pointer.splits if_splits)
  from Cons.IH [OF rest] show ?case
    by (auto simp: nth_update_cases split: if_splits)
qed

lemma splice_array_get:
  assumes sp: "splice_array alloc dest src off cnt t = Inr t'" and g: "get t i = None"
  shows "get t' i = None"
proof -
  have "length t' = length t \<and> (\<forall>j. allocated (t' ! j) = allocated (t ! j))"
    using sp
    by (auto simp: splice_array_def Let_def nth_update_cases
        split: if_splits sum.splits option.splits prod.splits dest!: splice_loop_shape)
  then show ?thesis using g by (simp add: get_None_iff)
qed

lemma join_arrays_get_other:
  assumes j: "join_arrays alloc new_idx idx1 idx2 t = Inr t'" and ne: "new_idx \<noteq> i"
    and g: "get t i = None"
  shows "get t' i = None"
proof (cases "unat idx1 \<ge> length t \<or> unat idx2 \<ge> length t
    \<or> \<not> allocated (t ! unat idx1) \<or> \<not> allocated (t ! unat idx2)")
  case True
  then have "t' = t" using j by (auto simp: join_arrays_def split: if_splits)
  then show ?thesis using g by simp
next
  case False
  have u: "unat new_idx \<noteq> unat i" using ne by (simp add: word_unat_eq_iff)
  obtain t1 where e: "ensure_capacity alloc new_idx t = Inr t1"
    using j False by (auto simp: join_arrays_def Let_def split: sum.splits)
  have g1: "get t1 i = None" using e g by (rule ensure_capacity_get)
  show ?thesis
    using j False e g1 u
    by (auto simp: join_arrays_def Let_def get_None_iff nth_update_cases
        split: if_splits sum.splits)
qed

lemma dispatch_get:
  assumes d: "dispatch alloc tokens t = Inr (t', out)" and nc: "\<not> creates_at tokens i"
    and g: "get t i = None"
  shows "get t' i = None"
proof -
  consider (create) "tokens ! 0 = ''CREATE''" "length tokens > 2"
    | (fill) "tokens ! 0 = ''FILL''" "length tokens > 2"
    | (splice) "tokens ! 0 = ''SPLICE''" "length tokens > 4"
    | (join) "tokens ! 0 = ''JOIN''" "length tokens > 3"
    | (free) "tokens ! 0 = ''FREE''" "length tokens > 1"
    | (other) "t' = t"
    using d by (auto simp: dispatch_def split: if_splits sum.splits)
  then show ?thesis
  proof cases
    case create
    then have "create_array alloc (ARG_L tokens 1) (ARG_L tokens 2) t = Inr t'"
      using d by (auto simp: dispatch_def split: sum.splits)
    moreover have "ARG_L tokens 1 \<noteq> i" using nc create by (simp add: creates_at_def)
    ultimately show ?thesis using g by (rule create_array_get_other)
  next
    case fill
    then have "fill_array (ARG_L tokens 1) (ARG_L tokens 2) t = Inr t'"
      using d by (auto simp: dispatch_def split: sum.splits)
    then show ?thesis using g by (rule fill_array_get)
  next
    case splice
    then have "splice_array alloc (ARG_L tokens 1) (ARG_L tokens 2) (ARG_L tokens 3)
        (ARG_L tokens 4) t = Inr t'"
      using d by (auto simp: dispatch_def split: sum.splits)
    then show ?thesis using g by (rule splice_array_get)
  next
    case join
    then have "join_arrays alloc (ARG_L tokens 1) (ARG_L tokens 2) (ARG_L tokens 3) t = Inr t'"
      using d by (auto simp: dispatch_def split: sum.splits)
    moreover have "ARG_L tokens 1 \<noteq> i" using nc join by (simp add: creates_at_def)
    ultimately show ?thesis using g by (rule join_arrays_get_other)
  next
    case free
    then have "free_array (ARG_L tokens 1) t = Inr t'"
      using d by (auto simp: dispatch_def split: sum.splits)
    then show ?thesis using g by (rule free_array_get)
  next
    case other
    then show ?thesis using g by simp
  qed
qed

lemma never_created_get: "never_created i t \<Longrightarrow> get t i = None"
proof (induction rule: never_created.induct)
  case start
  show ?case by (simp add: get_def)
next
  case (command arrays tokens alloc arrays' out)
  from command.hyps(3) command.hyps(2) command.IH show ?case by (rule dispatch_get)
qed

lemma ensure_capacity_cpp_nth:
  assumes "ensure_capacity_cpp alloc idx t = Inr t'" and "j < length t'"
  shows "t' ! j = (if j < length t then t ! j else empty_slot)"
  using assms
  by (auto simp: ensure_capacity_cpp_def nth_append split: if_splits)

lemma ensure_capacity_cpp_get:
  assumes e: "ensure_capacity_cpp alloc idx t = Inr t'" and g: "get t i = None"
  shows "get t' i = None"
proof (cases "unat i < length t'")
  case True
  then have "t' ! unat i = (if unat i < length t then t ! unat i else empty_slot)"
    using e by (rule ensure_capacity_cpp_nth [rotated])
  then show ?thesis
    using g by (auto simp: get_None_iff empty_slot_def)
next
  case False
  then show ?thesis by (simp add: get_None_iff)
qed

lemma create_array_cpp_get_other:
  assumes c: "create_array_cpp alloc idx n t = Inr (t', cout, cerr)" and ne: "idx \<noteq> i"
    and g: "get t i = None"
  shows "get t' i = None"
proof -
  have u: "unat idx \<noteq> unat i" using ne by (simp add: word_unat_eq_iff)
  obtain t1 where e: "ensure_capacity_cpp alloc idx t = Inr t1"
    using c by (auto simp: create_array_cpp_def split: sum.splits)
  have g1: "get t1 i = None" using e g by (rule ensure_capacity_cpp_get)
  show ?thesis
    using c e g1 u
    by (auto simp: create_array_cpp_def Let_def get_None_iff split: if_splits)
qed

lemma fill_array_cpp_get:
  assumes f: "fill_array_cpp idx v t = Inr (t', cout, cerr)" and g: "get t i = None"
  shows "get t' i = None"
  using f g
  by (auto simp: fill_array_cpp_def get_None_iff get_def nth_list_update
      split: option.splits if_splits pointer.splits)

lemma free_array_cpp_get:
  assumes f: "free_array_cpp idx t = Inr (t', cout, cerr)" and g: "get t i = None"
  shows "get t' i = None"
  using f g
  by (auto simp: free_array_cpp_def get_None_iff nth_list_update empty_slot_def c_free_def
      split: sum.splits if_splits)

lemma splice_array_cpp_get:
  assumes sp: "splice_array_cpp alloc dest src off cnt t = Inr (t', cout, cerr)"
    and g: "get t i = None"
  shows "get t' i = None"
proof -
  obtain t1 t2 where e1: "ensure_capacity_cpp alloc dest t = Inr t1"
    and e2: "ensure_capacity_cpp alloc src t1 = Inr t2"
    using sp by (auto simp: splice_array_cpp_def split: sum.splits)
  have g2: "get t2 i = None"
    using e2 ensure_capacity_cpp_get [OF e1 g] by (rule ensure_capacity_cpp_get)
  have "length t' = length t2 \<and> (\<forall>j. allocated (t' ! j) = allocated (t2 ! j))"
    using sp e1 e2
    by (auto simp: splice_array_cpp_def Let_def nth_update_cases
        split: if_splits sum.splits option.splits prod.splits dest!: splice_loop_shape)
  then show ?thesis using g2 by (simp add: get_None_iff)
qed

lemma join_arrays_cpp_get_other:
  assumes j: "join_arrays_cpp alloc new_idx idx1 idx2 t = Inr (t', cout, cerr)"
    and ne: "new_idx \<noteq> i" and g: "get t i = None"
  shows "get t' i = None"
proof -
  have u: "unat new_idx \<noteq> unat i" using ne by (simp add: word_unat_eq_iff)
  obtain t1 t2 t3 where e1: "ensure_capacity_cpp alloc new_idx t = Inr t1"
    and e2: "ensure_capacity_cpp alloc idx1 t1 = Inr t2"
    and e3: "ensure_capacity_cpp alloc idx2 t2 = Inr t3"
    using j by (auto simp: join_arrays_cpp_def split: sum.splits)
  have g3: "get t3 i = None"
    using e3 ensure_capacity_cpp_get [OF e2 ensure_capacity_cpp_get [OF e1 g]]
    by (rule ensure_capacity_cpp_get)
  show ?thesis
    using j e1 e2 e3 g3 u
    by (auto simp: join_arrays_cpp_def Let_def get_None_iff nth_update_cases
        split: if_splits sum.splits)
qed

lemma compute_stat_cpp_table: "compute_stat_cpp idx t = Inr (t', cout, cerr) \<Longrightarrow> t' = t"
  by (auto simp: compute_stat_cpp_def split: option.splits if_splits sum.splits)

lemma print_array_cpp_table: "print_array_cpp idx a b t = Inr (t', cout, cerr) \<Longrightarrow> t' = t"
  by (auto simp: print_array_cpp_def split: option.splits if_splits sum.splits)

lemma dispatch_cpp_get:
  assumes d: "dispatch_cpp alloc tokens t = Inr (t', cout, cerr)"
    and nc: "\<not> creates_at_cpp tokens i" and g: "get t i = None"
  shows "get t' i = None"
proof -
  consider (create) "tokens ! 0 = ''CREATE_ARRAY''" "length tokens > 2"
    | (fill) "tokens ! 0 = ''FILL_ARRAY''" "length tokens > 2"
    | (splice) "tokens ! 0 = ''SPLICE_ARRAY''" "length tokens > 4"
    | (join) "tokens ! 0 = ''JOIN_ARRAYS''" "length tokens > 3"
    | (free) "tokens ! 0 = ''FREE_ARRAY''" "length tokens > 1"
    | (stat) "tokens ! 0 = ''COMPUTE_STAT''" "length tokens > 1"
    | (print) "tokens ! 0 = ''PRINT_ARRAY''" "length tokens > 3"
    | (other) "t' = t"
    using d by (auto simp: dispatch_cpp_def split: if_splits)
  then show ?thesis
  proof cases
    case create
    then have "create_array_cpp alloc (toL tokens 1) (toL tokens 2) t = Inr (t', cout, cerr)"
      using d by (simp add: dispatch_cpp_def)
    moreover have "toL tokens 1 \<noteq> i" using nc create by (simp add: creates_at_cpp_def)
    ultimately show ?thesis using g by (rule create_array_cpp_get_other)
  next
    case fill
    then have "fill_array_cpp (toL tokens 1) (toL tokens 2) t = Inr (t', cout, cerr)"
      using d by (simp add: dispatch_cpp_def)
    then show ?thesis using g by (rule fill_array_cpp_get)
  next
    case splice
    then have "splice_array_cpp alloc (toL tokens 1) (toL tokens 2) (toL tokens 3)
        (toL tokens 4) t = Inr (t', cout, cerr)"
      using d by (simp add: dispatch_cpp_def)
    then show ?thesis using g by (rule splice_array_cpp_get)
  next
    case join
    then have "join_arrays_cpp alloc (toL tokens 1) (toL tokens 2) (toL tokens 3) t
        = Inr (t', cout, cerr)"
      using d by (simp add: dispatch_cpp_def)
    moreover have "toL tokens 1 \<noteq> i" using nc join by (simp add: creates_at_cpp_def)
    ultimately show ?thesis using g by (rule join_arrays_cpp_get_other)
  next
    case free
    then have "free_array_cpp (toL tokens 1) t = Inr (t', cout, cerr)"
      using d by (simp add: dispatch_cpp_def)
    then show ?thesis using g by (rule free_array_cpp_get)
  next
    case stat
    then have "compute_stat_cpp (toL tokens 1) t = Inr (t', cout, cerr)"
      using d by (simp add: dispatch_cpp_def)
    then show ?thesis using g by (auto dest: compute_stat_cpp_table)
  next
    case print
    then have "print_array_cpp (toL tokens 1) (toL tokens 2) (toL tokens 3) t
        = Inr (t', cout, cerr)"
      using d by (simp add: dispatch_cpp_def)
    then show ?thesis using g by (auto dest: print_array_cpp_table)
  next
    case other
    then show ?thesis using g by simp
  qed
qed

lemma never_created_cpp_get: "never_created_cpp i t \<Longrightarrow> get t i = None"
proof (induction rule: never_created_cpp.induct)
  case start_cpp
  show ?case by (simp add: get_def)
next
  case (command_cpp arrays tokens alloc arrays' cout cerr)
  from command_cpp.hyps(3) command_cpp.hyps(2) command_cpp.IH show ?case
    by (rule dispatch_cpp_get)
qed

subsection \<open>Freeing and reading an index that was never created\<close>

lemma empty_slot_fields [simp]:
  "allocated empty_slot = False" "data empty_slot = Null" "size_a empty_slot = 0"
  by (simp_all add: empty_slot_def)

lemma dispatch_create_0_10:
  "dispatch always [''CREATE'', ''0'', ''10''] []
     = Inr ((replicate 16 empty_slot)
              [0 := \<lparr>data = Block (replicate 10 (Some 0)), size_a = 10, allocated = True\<rparr>], [])"
  by (simp add: dispatch_def ARG_L_def create_array_def ensure_capacity_def array_count_def
      store_loop_fresh clib_eval)

lemma dispatch_cpp_create_0_10:
  "dispatch_cpp always [''CREATE_ARRAY'', ''0'', ''10''] []
     = Inr ([\<lparr>data = Block (replicate 10 (Some 0)), size_a = 10, allocated = True\<rparr>], [], [])"
  by (simp add: dispatch_cpp_def toL_def create_array_cpp_def ensure_capacity_cpp_def
      store_loop_fresh empty_slot_def clib_eval)

text \<open>
  C2, as the code has it. Let no slot ever have been created at index \<open>i\<close>. Then the
  lookup finds no slot there, and \<open>free_array(i)\<close>, \<open>fill_array(i, v)\<close>, \<open>compute_stat(i)\<close>
  and \<open>print_array(i, start, end)\<close> return with the table as it was: no block is read,
  written or freed. bug6.c prints nothing in these cases; bug5.cpp writes one line to
  \<open>std::cerr\<close>.
\<close>

theorem never_created_not_allocated:
  "(never_created i arrays \<longrightarrow>
      get arrays i = None
      \<and> free_array i arrays = Inr arrays
      \<and> fill_array i v arrays = Inr arrays
      \<and> compute_stat i arrays = Inr []
      \<and> print_array i start stop arrays = Inr [])
   \<and> (never_created_cpp i arrays \<longrightarrow>
      get arrays i = None
      \<and> free_array_cpp i arrays
          = Inr (arrays, [], ''free_array: array not allocated or invalid index\<newline>'')
      \<and> fill_array_cpp i v arrays = Inr (arrays, [], ''fill_array: array not allocated\<newline>'')
      \<and> compute_stat_cpp i arrays
          = Inr (arrays, [], ''compute_stat: array not allocated\<newline>'')
      \<and> print_array_cpp i start stop arrays
          = Inr (arrays, [], ''print_array: array not allocated\<newline>''))"
proof (intro conjI impI)
  assume "never_created i arrays"
  then have g: "get arrays i = None" by (rule never_created_get)
  then have n: "unat i \<ge> length arrays \<or> \<not> allocated (arrays ! unat i)"
    by (simp add: get_None_iff)
  show "get arrays i = None" by (rule g)
  show "free_array i arrays = Inr arrays" using n by (auto simp: free_array_def)
  show "fill_array i v arrays = Inr arrays" using g by (simp add: fill_array_def)
  show "compute_stat i arrays = Inr []" using g by (simp add: compute_stat_def)
  show "print_array i start stop arrays = Inr []" using g by (simp add: print_array_def)
next
  assume "never_created_cpp i arrays"
  then have g: "get arrays i = None" by (rule never_created_cpp_get)
  then have n: "unat i \<ge> length arrays \<or> \<not> allocated (arrays ! unat i)"
    by (simp add: get_None_iff)
  show "get arrays i = None" by (rule g)
  show "free_array_cpp i arrays
      = Inr (arrays, [], ''free_array: array not allocated or invalid index\<newline>'')"
    using n by (auto simp: free_array_cpp_def NL_def)
  show "fill_array_cpp i v arrays = Inr (arrays, [], ''fill_array: array not allocated\<newline>'')"
    using g by (simp add: fill_array_cpp_def NL_def)
  show "compute_stat_cpp i arrays = Inr (arrays, [], ''compute_stat: array not allocated\<newline>'')"
    using g by (simp add: compute_stat_cpp_def NL_def)
  show "print_array_cpp i start stop arrays
      = Inr (arrays, [], ''print_array: array not allocated\<newline>'')"
    using g by (simp add: print_array_cpp_def NL_def)
qed

text \<open>
  The hypotheses hold after \<open>CREATE 0 10\<close> (bug6.c) and after \<open>CREATE_ARRAY 0 10\<close>
  (bug5.cpp) at index 1.
\<close>

theorem never_created_not_allocated_witness:
  "never_created 1 ((replicate 16 empty_slot)
       [0 := \<lparr>data = Block (replicate 10 (Some 0)), size_a = 10, allocated = True\<rparr>])
   \<and> free_array 1 ((replicate 16 empty_slot)
       [0 := \<lparr>data = Block (replicate 10 (Some 0)), size_a = 10, allocated = True\<rparr>])
     = Inr ((replicate 16 empty_slot)
       [0 := \<lparr>data = Block (replicate 10 (Some 0)), size_a = 10, allocated = True\<rparr>])
   \<and> never_created_cpp 1 [\<lparr>data = Block (replicate 10 (Some 0)), size_a = 10, allocated = True\<rparr>]
   \<and> free_array_cpp 1 [\<lparr>data = Block (replicate 10 (Some 0)), size_a = 10, allocated = True\<rparr>]
     = Inr ([\<lparr>data = Block (replicate 10 (Some 0)), size_a = 10, allocated = True\<rparr>], [],
            ''free_array: array not allocated or invalid index\<newline>'')"
proof -
  have nc: "\<not> creates_at [''CREATE'', ''0'', ''10''] 1"
    by (simp add: creates_at_def ARG_L_def clib_eval)
  have r: "never_created 1 ((replicate 16 empty_slot)
       [0 := \<lparr>data = Block (replicate 10 (Some 0)), size_a = 10, allocated = True\<rparr>])"
    by (rule never_created.command [OF never_created.start nc dispatch_create_0_10])
  have nc': "\<not> creates_at_cpp [''CREATE_ARRAY'', ''0'', ''10''] 1"
    by (simp add: creates_at_cpp_def toL_def clib_eval)
  have r': "never_created_cpp 1
      [\<lparr>data = Block (replicate 10 (Some 0)), size_a = 10, allocated = True\<rparr>]"
    by (rule never_created_cpp.command_cpp [OF never_created_cpp.start_cpp nc' dispatch_cpp_create_0_10])
  show ?thesis
    using r r'
      never_created_not_allocated [of 1 "(replicate 16 empty_slot)
       [0 := \<lparr>data = Block (replicate 10 (Some 0)), size_a = 10, allocated = True\<rparr>]" 0 0 0]
      never_created_not_allocated [of 1
        "[\<lparr>data = Block (replicate 10 (Some 0)), size_a = 10, allocated = True\<rparr>]" 0 0 0]
    by simp
qed

text \<open>
  C2 as stated fails for bug6.c: \<open>free_array(0)\<close> on the empty table returns normally,
  and the run of \<open>FREE 0\<close> ends with nothing printed. The failure is ignored, not reported.
\<close>

theorem free_not_reported_counterexample:
  "free_array 0 [] = Inr [] \<and> bug6_main always ''FREE 0\<newline>'' = Inr []"
  by (simp add: clib_eval bug6_eval)

subsection \<open>Creating a slot\<close>

lemma create_array_slot:
  assumes c: "create_array alloc idx n arrays = Inr arrays'"
    and g: "get arrays' idx = Some a"
  shows "a = \<lparr>data = Block (replicate (unat (if sint n < 0 then 10 else if n > 4611686018427387903 then 100 else n)) (Some 0)),
               size_a = (if sint n < 0 then 10 else if n > 4611686018427387903 then 100 else n), allocated = True\<rparr>"
  using c g
  by (auto simp: create_array_def get_def store_loop_fresh empty_slot_def Let_def
      split: sum.splits if_splits)

lemma create_array_cpp_slot:
  assumes c: "create_array_cpp alloc idx n arrays = Inr (arrays', out, err)"
    and g: "get arrays' idx = Some a"
  shows "a = \<lparr>data = Block (replicate (unat (if sint n < 0 then 100 else n)) (Some 0)),
               size_a = (if sint n < 0 then 100 else n), allocated = True\<rparr>"
proof -
  define count where "count = (if sint n < 0 then 100 else n)"
  have wrap: "unat count \<le> unat (count * 4) div 4 \<Longrightarrow> unat (count * 4) div 4 = unat count"
  proof -
    assume le: "unat count \<le> unat (count * 4) div 4"
    have "unat (count * 4) \<le> unat count * 4"
      by (simp add: unat_word_ariths) 
    then have "unat (count * 4) div 4 \<le> unat count" by simp
    with le show ?thesis by simp
  qed
  show ?thesis
    using c g wrap
    by (auto simp: create_array_cpp_def get_def store_loop_eq empty_slot_def Let_def count_def
      split: sum.splits if_splits)
qed

lemma create_array_0_10:
  "create_array always 0 10 []
     = Inr ((replicate 16 empty_slot)
              [0 := \<lparr>data = Block (replicate 10 (Some 0)), size_a = 10, allocated = True\<rparr>])"
  by (simp add: create_array_def ensure_capacity_def array_count_def store_loop_fresh clib_eval)

lemma create_array_cpp_0_10:
  "create_array_cpp always 0 10 []
     = Inr ([\<lparr>data = Block (replicate 10 (Some 0)), size_a = 10, allocated = True\<rparr>], [], [])"
  by (simp add: create_array_cpp_def ensure_capacity_cpp_def store_loop_fresh empty_slot_def clib_eval)

text \<open>
  C4, as the code has it. Let the size argument \<open>n\<close> be non-negative and, for bug6.c, at
  most \<open>SIZE_MAX / sizeof(int) = 2 ^ 62 - 1\<close>. After \<open>create_array(idx, n)\<close> has succeeded,
  that is, the lookup finds a slot at \<open>idx\<close>, the slot is allocated, its size is exactly
  \<open>n\<close> and its block holds \<open>n\<close> cells, all zero. (For other size arguments the slot has 10
  or 100 cells, lemmas \<open>create_array_slot\<close> and \<open>create_array_cpp_slot\<close>.)
\<close>

theorem create_then_get:
  "(create_array alloc idx n arrays = Inr arrays' \<and> get arrays' idx = Some a
      \<and> 0 \<le> sint n \<and> n \<le> 4611686018427387903
      \<longrightarrow> allocated a \<and> size_a a = n \<and> data a = Block (replicate (unat n) (Some 0)))
   \<and> (create_array_cpp alloc idx n arrays = Inr (arrays'', cout, cerr) \<and> get arrays'' idx = Some b
      \<and> 0 \<le> sint n
      \<longrightarrow> allocated b \<and> size_a b = n \<and> data b = Block (replicate (unat n) (Some 0)))"
proof (intro conjI impI)
  assume h: "create_array alloc idx n arrays = Inr arrays' \<and> get arrays' idx = Some a
      \<and> 0 \<le> sint n \<and> n \<le> 4611686018427387903"
  then have c: "create_array alloc idx n arrays = Inr arrays'" and g: "get arrays' idx = Some a"
    and pos: "\<not> sint n < 0" and le: "\<not> n > 4611686018427387903"
    by (simp_all add: not_less)
  have "a = \<lparr>data = Block (replicate (unat n) (Some 0)), size_a = n, allocated = True\<rparr>"
    using create_array_slot [OF c g] pos le by simp
  then show "allocated a" and "size_a a = n" and "data a = Block (replicate (unat n) (Some 0))"
    by simp_all
next
  assume h: "create_array_cpp alloc idx n arrays = Inr (arrays'', cout, cerr)
      \<and> get arrays'' idx = Some b \<and> 0 \<le> sint n"
  then have "b = \<lparr>data = Block (replicate (unat n) (Some 0)), size_a = n, allocated = True\<rparr>"
    using create_array_cpp_slot [of alloc idx n arrays arrays'' cout cerr b] by simp
  then show "allocated b" and "size_a b = n" and "data b = Block (replicate (unat n) (Some 0))"
    by simp_all
qed

text \<open>The hypotheses hold for \<open>create_array(0, 10)\<close> on the empty table.\<close>

theorem create_then_get_witness:
  "create_array always 0 10 []
     = Inr ((replicate 16 empty_slot)
              [0 := \<lparr>data = Block (replicate 10 (Some 0)), size_a = 10, allocated = True\<rparr>])
   \<and> get ((replicate 16 empty_slot)
              [0 := \<lparr>data = Block (replicate 10 (Some 0)), size_a = 10, allocated = True\<rparr>]) 0
       = Some \<lparr>data = Block (replicate 10 (Some 0)), size_a = 10, allocated = True\<rparr>
   \<and> (0::int) \<le> sint (10 :: long) \<and> (10 :: long) \<le> 4611686018427387903
   \<and> create_array_cpp always 0 10 []
       = Inr ([\<lparr>data = Block (replicate 10 (Some 0)), size_a = 10, allocated = True\<rparr>], [], [])
   \<and> get [\<lparr>data = Block (replicate 10 (Some 0)), size_a = 10, allocated = True\<rparr>] 0
       = Some \<lparr>data = Block (replicate 10 (Some 0)), size_a = 10, allocated = True\<rparr>
   \<and> size_a \<lparr>data = Block (replicate 10 (Some 0)), size_a = 10, allocated = True\<rparr> = 10
   \<and> data \<lparr>data = Block (replicate 10 (Some 0)), size_a = 10, allocated = True\<rparr>
       = Block (replicate (unat (10 :: long)) (Some 0))"
  using create_then_get [of always 0 10 "[]" "(replicate 16 empty_slot)
              [0 := \<lparr>data = Block (replicate 10 (Some 0)), size_a = 10, allocated = True\<rparr>]"
      "\<lparr>data = Block (replicate 10 (Some 0)), size_a = 10, allocated = True\<rparr>"
      "[\<lparr>data = Block (replicate 10 (Some 0)), size_a = 10, allocated = True\<rparr>]" "[]" "[]"
      "\<lparr>data = Block (replicate 10 (Some 0)), size_a = 10, allocated = True\<rparr>"]
    create_array_0_10 create_array_cpp_0_10
  by (simp add: get_def)

text \<open>
  C4 as stated fails for a negative size argument: \<open>create_array(0, -1)\<close> succeeds, and
  the slot has 10 cells in bug6.c and 100 cells in bug5.cpp.
\<close>

theorem create_negative_size_counterexample:
  "create_array always 0 (- 1) []
     = Inr ((replicate 16 empty_slot)
              [0 := \<lparr>data = Block (replicate 10 (Some 0)), size_a = 10, allocated = True\<rparr>])
   \<and> get ((replicate 16 empty_slot)
              [0 := \<lparr>data = Block (replicate 10 (Some 0)), size_a = 10, allocated = True\<rparr>]) 0
       = Some \<lparr>data = Block (replicate 10 (Some 0)), size_a = 10, allocated = True\<rparr>
   \<and> (10 :: size_t) \<noteq> - 1
   \<and> create_array_cpp always 0 (- 1) []
       = Inr ([\<lparr>data = Block (replicate 100 (Some 0)), size_a = 100, allocated = True\<rparr>], [], [])
   \<and> (100 :: size_t) \<noteq> - 1"
  by (simp add: create_array_def ensure_capacity_def array_count_def store_loop_fresh clib_eval
      create_array_cpp_def ensure_capacity_cpp_def empty_slot_def get_def)

subsection \<open>Filling a slot\<close>

lemma scast_fits:
  "- 2147483648 \<le> sint (v :: long) \<Longrightarrow> sint v \<le> 2147483647 \<Longrightarrow> sint (scast v :: cint) = sint v"
  apply (simp only: scast_eq sint_sbintrunc')
  apply (rule signed_take_bit_int_eq_self)
   apply simp_all
  done

lemma read_cell_replicate: "i < n \<Longrightarrow> read_cell (Block (replicate n (Some x))) i = Inr x"
  by (simp add: read_cell_def)

lemma fill_after_create:
  assumes g: "get arrays1 idx = Some a"
    and a: "a = \<lparr>data = Block (replicate (unat c) (Some 0)), size_a = c, allocated = True\<rparr>"
  shows "fill_array idx v arrays1
           = Inr (arrays1[unat idx := a\<lparr>data := Block (replicate (unat c) (Some (scast v)))\<rparr>])"
proof (cases "c = 0")
  case True
  have e: "a\<lparr>data := Block (replicate (unat c) (Some (scast v)))\<rparr> = a"
    by (simp add: a True)
  have "arrays1 ! unat idx = a" using g by (simp add: get_Some_iff)
  then have "arrays1[unat idx := a] = arrays1" using list_update_id [of arrays1 "unat idx"] by simp
  moreover have "fill_array idx v arrays1 = Inr arrays1"
    using g by (simp add: fill_array_def a True)
  ultimately show ?thesis unfolding e by simp
next
  case False
  then show ?thesis using g a by (simp add: fill_array_def store_loop_eq)
qed

lemma fill_cpp_after_create:
  assumes g: "get arrays1 idx = Some a"
    and a: "a = \<lparr>data = Block (replicate (unat c) (Some 0)), size_a = c, allocated = True\<rparr>"
  shows "fill_array_cpp idx v arrays1
           = Inr (arrays1[unat idx := a\<lparr>data := Block (replicate (unat c) (Some (scast v)))\<rparr>], [], [])"
proof (cases "c = 0")
  case True
  have e: "a\<lparr>data := Block (replicate (unat c) (Some (scast v)))\<rparr> = a"
    by (simp add: a True)
  have "arrays1 ! unat idx = a" using g by (simp add: get_Some_iff)
  then have "arrays1[unat idx := a] = arrays1" using list_update_id [of arrays1 "unat idx"] by simp
  moreover have "fill_array_cpp idx v arrays1 = Inr (arrays1, [], [])"
    using g by (simp add: fill_array_cpp_def a True)
  ultimately show ?thesis unfolding e by simp
next
  case False
  then show ?thesis using g a by (simp add: fill_array_cpp_def store_loop_eq)
qed

text \<open>
  C5, as the code has it. After \<open>create_array(idx, n)\<close> has succeeded, \<open>fill_array(idx, v)\<close>
  returns, the slot keeps its size (which is \<open>n\<close> for the size arguments of C4), and every
  cell \<open>i\<close> below the size reads \<open>(int) v\<close>, the low 32 bits of the \<open>long\<close> value. That
  is \<open>v\<close> itself when \<open>v\<close> lies between \<open>INT_MIN\<close> and \<open>INT_MAX\<close>.
\<close>

theorem create_fill_read:
  "(create_array alloc idx n arrays = Inr arrays1 \<and> get arrays1 idx = Some a \<longrightarrow>
      (\<exists>arrays2 b. fill_array idx v arrays1 = Inr arrays2 \<and> get arrays2 idx = Some b
         \<and> size_a b = size_a a
         \<and> (0 \<le> sint n \<and> n \<le> 4611686018427387903 \<longrightarrow> size_a b = n)
         \<and> (\<forall>i < unat (size_a b). read_cell (data b) i = Inr (scast v))))
   \<and> (create_array_cpp alloc idx n arrays = Inr (arrays1', cout, cerr) \<and> get arrays1' idx = Some a' \<longrightarrow>
      (\<exists>arrays2 b. fill_array_cpp idx v arrays1' = Inr (arrays2, [], []) \<and> get arrays2 idx = Some b
         \<and> size_a b = size_a a'
         \<and> (0 \<le> sint n \<longrightarrow> size_a b = n)
         \<and> (\<forall>i < unat (size_a b). read_cell (data b) i = Inr (scast v))))
   \<and> (- 2147483648 \<le> sint v \<and> sint v \<le> 2147483647 \<longrightarrow> sint (scast v :: cint) = sint v)"
proof (intro conjI impI)
  assume h: "create_array alloc idx n arrays = Inr arrays1 \<and> get arrays1 idx = Some a"
  define c where "c = (if sint n < 0 then 10 else if n > 4611686018427387903 then 100 else n)"
  have a: "a = \<lparr>data = Block (replicate (unat c) (Some 0)), size_a = c, allocated = True\<rparr>"
    using h create_array_slot [of alloc idx n arrays arrays1 a] by (simp add: c_def)
  have g: "get arrays1 idx = Some a" using h by simp
  let ?b = "a\<lparr>data := Block (replicate (unat c) (Some (scast v)))\<rparr>"
  have f: "fill_array idx v arrays1 = Inr (arrays1[unat idx := ?b])"
    using g a by (rule fill_after_create)
  have gb: "get (arrays1[unat idx := ?b]) idx = Some ?b"
    using g a by (auto simp: get_Some_iff)
  have sz: "0 \<le> sint n \<and> n \<le> 4611686018427387903 \<longrightarrow> size_a ?b = n"
    using a by (auto simp: c_def not_less)
  have rd: "\<forall>i < unat (size_a ?b). read_cell (data ?b) i = Inr (scast v)"
    using a by (simp add: read_cell_replicate)
  show "\<exists>arrays2 b. fill_array idx v arrays1 = Inr arrays2 \<and> get arrays2 idx = Some b
         \<and> size_a b = size_a a
         \<and> (0 \<le> sint n \<and> n \<le> 4611686018427387903 \<longrightarrow> size_a b = n)
         \<and> (\<forall>i < unat (size_a b). read_cell (data b) i = Inr (scast v))"
    using f gb sz rd by (intro exI [of _ "arrays1[unat idx := ?b]"] exI [of _ ?b]) simp
next
  assume h: "create_array_cpp alloc idx n arrays = Inr (arrays1', cout, cerr)
      \<and> get arrays1' idx = Some a'"
  define c where "c = (if sint n < 0 then 100 else n)"
  have a: "a' = \<lparr>data = Block (replicate (unat c) (Some 0)), size_a = c, allocated = True\<rparr>"
    using h create_array_cpp_slot [of alloc idx n arrays arrays1' cout cerr a'] by (simp add: c_def)
  have g: "get arrays1' idx = Some a'" using h by simp
  let ?b = "a'\<lparr>data := Block (replicate (unat c) (Some (scast v)))\<rparr>"
  have f: "fill_array_cpp idx v arrays1' = Inr (arrays1'[unat idx := ?b], [], [])"
    using g a by (rule fill_cpp_after_create)
  have gb: "get (arrays1'[unat idx := ?b]) idx = Some ?b"
    using g a by (auto simp: get_Some_iff)
  have sz: "0 \<le> sint n \<longrightarrow> size_a ?b = n"
    using a by (auto simp: c_def not_less)
  have rd: "\<forall>i < unat (size_a ?b). read_cell (data ?b) i = Inr (scast v)"
    using a by (simp add: read_cell_replicate)
  show "\<exists>arrays2 b. fill_array_cpp idx v arrays1' = Inr (arrays2, [], []) \<and> get arrays2 idx = Some b
         \<and> size_a b = size_a a'
         \<and> (0 \<le> sint n \<longrightarrow> size_a b = n)
         \<and> (\<forall>i < unat (size_a b). read_cell (data b) i = Inr (scast v))"
    using f gb sz rd by (intro exI [of _ "arrays1'[unat idx := ?b]"] exI [of _ ?b]) simp
next
  assume "- 2147483648 \<le> sint v \<and> sint v \<le> 2147483647"
  then show "sint (scast v :: cint) = sint v" by (simp add: scast_fits)
qed

text \<open>The hypotheses hold for \<open>create_array(0, 10)\<close> on the empty table, filled with 7.\<close>

theorem create_fill_read_witness:
  "create_array always 0 10 []
     = Inr ((replicate 16 empty_slot)
              [0 := \<lparr>data = Block (replicate 10 (Some 0)), size_a = 10, allocated = True\<rparr>])
   \<and> get ((replicate 16 empty_slot)
              [0 := \<lparr>data = Block (replicate 10 (Some 0)), size_a = 10, allocated = True\<rparr>]) 0
       = Some \<lparr>data = Block (replicate 10 (Some 0)), size_a = 10, allocated = True\<rparr>
   \<and> (\<exists>arrays2 b. fill_array 0 7 ((replicate 16 empty_slot)
              [0 := \<lparr>data = Block (replicate 10 (Some 0)), size_a = 10, allocated = True\<rparr>])
          = Inr arrays2 \<and> get arrays2 0 = Some b \<and> size_a b = 10
          \<and> read_cell (data b) 9 = Inr 7)
   \<and> create_array_cpp always 0 10 []
       = Inr ([\<lparr>data = Block (replicate 10 (Some 0)), size_a = 10, allocated = True\<rparr>], [], [])
   \<and> get [\<lparr>data = Block (replicate 10 (Some 0)), size_a = 10, allocated = True\<rparr>] 0
       = Some \<lparr>data = Block (replicate 10 (Some 0)), size_a = 10, allocated = True\<rparr>
   \<and> (\<exists>arrays2 b. fill_array_cpp 0 7
            [\<lparr>data = Block (replicate 10 (Some 0)), size_a = 10, allocated = True\<rparr>]
          = Inr (arrays2, [], []) \<and> get arrays2 0 = Some b \<and> size_a b = 10
          \<and> read_cell (data b) 9 = Inr 7)
   \<and> sint (scast (7 :: long) :: cint) = sint (7 :: long)"
proof -
  let ?S = "\<lparr>data = Block (replicate 10 (Some (0 :: cint))), size_a = 10, allocated = True\<rparr>"
  let ?T = "(replicate 16 empty_slot)[0 := ?S]"
  have g: "get ?T 0 = Some ?S" and g': "get [?S] 0 = Some ?S"
    by (simp_all add: get_def)
  show ?thesis
    using create_fill_read [of always 0 10 "[]" ?T ?S 7 "[?S]" "[]" "[]" ?S]
      create_array_0_10 create_array_cpp_0_10 g g'
    by fastforce
qed

text \<open>
  C5 as stated fails for a value outside \<open>int\<close>: after filling with \<open>4294967297\<close>
  (\<open>2 ^ 32 + 1\<close>) every cell reads 1, in both programs.
\<close>

theorem fill_truncates_counterexample:
  "bug6_main always ''CREATE 0 2\<newline>FILL 0 4294967297\<newline>PRINT 0 0 1\<newline>''
     = Inr ''1 1 \<newline>''
   \<and> bug5_main always ''CREATE_ARRAY 0 2\<newline>FILL_ARRAY 0 4294967297\<newline>PRINT_ARRAY 0 0 1\<newline>''
     = Inr (''1 1 \<newline>'', [])"
  by (simp add: clib_eval bug6_eval bug5_eval)

subsection \<open>Range arguments of print and splice\<close>








subsection \<open>Splicing\<close>

lemma ensure_capacity_cpp_cases:
  assumes e: "ensure_capacity_cpp alloc idx t = Inr t'"
  shows "(idx = - 1 \<and> t' = [])
     \<or> ((idx \<noteq> - 1 \<or> unat idx < length t)
        \<and> length t' = max (length t) (unat idx + 1) \<and> take (length t) t' = t
        \<and> (\<forall>j. length t \<le> j \<and> j < length t' \<longrightarrow> t' ! j = empty_slot))"
proof (cases "unat idx \<ge> length t")
  case False
  then have "t' = t" using e by (simp add: ensure_capacity_cpp_def)
  then show ?thesis using False by (auto simp: max_def)
next
  case True
  show ?thesis
  proof (cases "idx + 1 = 0")
    case z: True
    then have "idx = - 1" by (simp add: add_eq_0_iff2)
    moreover have "t' = []" using e True z by (simp add: ensure_capacity_cpp_def)
    ultimately show ?thesis by simp
  next
    case nz: False
    have ne: "idx \<noteq> - 1" using nz by auto
    have u: "unat (idx + 1) = unat idx + 1"
      using nz unatSuc [of idx] by (simp add: add.commute)
    have t': "t' = t @ replicate (unat idx + 1 - length t) empty_slot"
      using e True nz u by (auto simp: ensure_capacity_cpp_def split: if_splits)
    show ?thesis using True ne by (auto simp: t' max_def nth_append)
  qed
qed

text \<open>
  bug5.cpp grows the vector for both indices before it looks at the slots. When a call
  that returns was given a destination or a source that is not allocated, it is refused
  on \<open>std::cerr\<close>, every slot that existed is unchanged and the new slots are empty.
\<close>

lemma splice_array_cpp_unallocated:
  assumes r: "splice_array_cpp alloc dest src offset count arrays = Inr (arrays', cout, cerr)"
    and u: "get arrays dest = None \<or> get arrays src = None"
  shows "cout = [] \<and> cerr = ''splice_array: one or both arrays not allocated\<newline>''
     \<and> length arrays \<le> length arrays' \<and> take (length arrays) arrays' = arrays
     \<and> (\<forall>j. length arrays \<le> j \<and> j < length arrays' \<longrightarrow> arrays' ! j = empty_slot)"
proof -
  obtain a1 a2 where e1: "ensure_capacity_cpp alloc dest arrays = Inr a1"
    and e2: "ensure_capacity_cpp alloc src a1 = Inr a2"
    using r by (auto simp: splice_array_cpp_def split: sum.splits)
  have inb: "unat dest < length a2" "unat src < length a2"
    using r e1 e2 by (auto simp: splice_array_cpp_def split: if_splits)
  have c2: "length a2 = max (length a1) (unat src + 1) \<and> take (length a1) a2 = a1
        \<and> (\<forall>j. length a1 \<le> j \<and> j < length a2 \<longrightarrow> a2 ! j = empty_slot)"
    and src_ok: "src \<noteq> - 1 \<or> unat src < length a1"
    using ensure_capacity_cpp_cases [OF e2] inb by auto
  have c1: "length a1 = max (length arrays) (unat dest + 1) \<and> take (length arrays) a1 = arrays
        \<and> (\<forall>j. length arrays \<le> j \<and> j < length a1 \<longrightarrow> a1 ! j = empty_slot)"
  proof (rule disjE [OF ensure_capacity_cpp_cases [OF e1]])
    assume d: "dest = - 1 \<and> a1 = []"
    then have ne: "src \<noteq> - 1" using src_ok by simp
    have "unat src < 2 ^ 64 - 1"
    proof -
      have "unat (- 1 :: 64 word) = 18446744073709551615"
        by (simp add: unsigned_minus_1_eq_mask mask_eq_exp_minus_1)
      moreover have "unat src \<noteq> unat (- 1 :: 64 word)" using ne by (simp add: word_unat_eq_iff)
      moreover have "unat src < 2 ^ 64" using unsigned_less [of src, where ?'a = nat] by simp
      ultimately show ?thesis by simp
    qed
    moreover have "unat dest = 18446744073709551615"
      using d by (simp add: unsigned_minus_1_eq_mask mask_eq_exp_minus_1)
    ultimately have "length a2 \<le> unat dest" using c2 d by simp
    then show ?thesis using inb by simp
  next
    assume "(dest \<noteq> - 1 \<or> unat dest < length arrays)
        \<and> length a1 = max (length arrays) (unat dest + 1) \<and> take (length arrays) a1 = arrays
        \<and> (\<forall>j. length arrays \<le> j \<and> j < length a1 \<longrightarrow> a1 ! j = empty_slot)"
    then show ?thesis by simp
  qed
  have l: "length arrays \<le> length a1" "length a1 \<le> length a2" using c1 c2 by simp_all
  have t1: "take (length arrays) a1 = arrays" using c1 by (elim conjE)
  have t2: "take (length a1) a2 = a1" using c2 by (elim conjE)
  have "min (length arrays) (length a1) = length arrays" using l by simp
  then have "take (length arrays) (take (length a1) a2) = take (length arrays) a2"
    by (simp only: take_take)
  then have tk: "take (length arrays) a2 = arrays"
    by (simp only: t2 t1)
  have fresh: "a2 ! j = empty_slot" if "length arrays \<le> j" "j < length a2" for j
  proof (cases "length a1 \<le> j")
    case True
    then show ?thesis using c2 that by simp
  next
    case False
    then have j: "j < length a1" by simp
    have "take (length a1) a2 ! j = a2 ! j" using j by (rule nth_take)
    then have "a2 ! j = a1 ! j" by (simp only: t2)
    moreover have "a1 ! j = empty_slot" using c1 that j by blast
    ultimately show ?thesis by simp
  qed
  have old: "a2 ! j = arrays ! j" if "j < length arrays" for j
  proof -
    have "take (length arrays) a2 ! j = a2 ! j" using that by (rule nth_take)
    then show ?thesis by (simp only: tk)
  qed
  have un: "\<not> allocated (a2 ! unat dest) \<or> \<not> allocated (a2 ! unat src)"
  proof (rule disjE [OF u])
    assume g: "get arrays dest = None"
    show ?thesis
    proof (cases "unat dest < length arrays")
      case True
      then have "\<not> allocated (arrays ! unat dest)" using g by (simp add: get_def split: if_splits)
      then show ?thesis using old [OF True] by simp
    next
      case False
      then have "a2 ! unat dest = empty_slot" using fresh inb by simp
      then show ?thesis by simp
    qed
  next
    assume g: "get arrays src = None"
    show ?thesis
    proof (cases "unat src < length arrays")
      case True
      then have "\<not> allocated (arrays ! unat src)" using g by (simp add: get_def split: if_splits)
      then show ?thesis using old [OF True] by simp
    next
      case False
      then have "a2 ! unat src = empty_slot" using fresh inb by simp
      then show ?thesis by simp
    qed
  qed
  have res: "arrays' = a2 \<and> cout = []
      \<and> cerr = ''splice_array: one or both arrays not allocated\<newline>''"
    using r e1 e2 inb un by (auto simp: splice_array_cpp_def NL_def)
  show ?thesis using res l tk fresh by simp
qed

text \<open>
  C10 does not hold on the code. The claim has \<open>splice_array\<close> reject, before any
  reallocation or copy, every call in which \<open>offset + count\<close> exceeds the source slot's
  size. Both programs form \<open>offset + count\<close> as a \<open>long\<close> sum and do not test it for
  overflow. After \<open>CREATE 0 10\<close> and \<open>CREATE 1 1\<close>, the command
  \<open>SPLICE 1 0 9223372036854775807 1\<close> has an offset and a count that are not negative and
  whose sum, \<open>2 ^ 63\<close>, exceeds the size 10 of the source: the addition overflows and
  the call is not rejected. (Where the sum wraps to \<open>LONG_MIN\<close>, the comparison with the
  size lets the call through to \<open>realloc\<close> and to the copying loop, which reads cell
  \<open>LONG_MAX\<close> of the source.) The same holds for \<open>SPLICE_ARRAY\<close> in bug5.cpp.

  The claim also has a call with a destination that is not allocated rejected. bug5.cpp
  grows its vector first, and for the destination \<open>4611686018427387904\<close> the growth
  throws \<open>std::length_error\<close>, which nothing catches.
\<close>

theorem splice_overflow_not_rejected:
  "sint (size_a \<lparr>data = Block (replicate 10 (Some 0)), size_a = 10, allocated = True\<rparr>)
      < sint (9223372036854775807 :: long) + sint (1 :: long)
   \<and> splice_array alloc 1 0 9223372036854775807 1 ((replicate 16 empty_slot)
       [0 := \<lparr>data = Block (replicate 10 (Some 0)), size_a = 10, allocated = True\<rparr>,
        1 := \<lparr>data = Block [Some 0], size_a = 1, allocated = True\<rparr>])
     = Inl SignedOverflow
   \<and> bug6_main always
        ''CREATE 0 10\<newline>CREATE 1 1\<newline>SPLICE 1 0 9223372036854775807 1\<newline>''
     = Inl SignedOverflow
   \<and> splice_array_cpp alloc 1 0 9223372036854775807 1
       [\<lparr>data = Block (replicate 10 (Some 0)), size_a = 10, allocated = True\<rparr>,
        \<lparr>data = Block [Some 0], size_a = 1, allocated = True\<rparr>]
     = Inl SignedOverflow
   \<and> bug5_main always
        ''CREATE_ARRAY 0 10\<newline>CREATE_ARRAY 1 1\<newline>SPLICE_ARRAY 1 0 9223372036854775807 1\<newline>''
     = Inl SignedOverflow
   \<and> bug5_main always
        ''CREATE_ARRAY 0 10\<newline>SPLICE_ARRAY 4611686018427387904 0 0 1\<newline>''
     = Inl UncaughtException"
proof (intro conjI)
  show "sint (size_a \<lparr>data = Block (replicate 10 (Some 0)), size_a = 10, allocated = True\<rparr>)
      < sint (9223372036854775807 :: long) + sint (1 :: long)"
    by simp
  show "splice_array alloc 1 0 9223372036854775807 1 ((replicate 16 empty_slot)
       [0 := \<lparr>data = Block (replicate 10 (Some 0)), size_a = 10, allocated = True\<rparr>,
        1 := \<lparr>data = Block [Some 0], size_a = 1, allocated = True\<rparr>])
     = Inl SignedOverflow"
    by (simp add: splice_array_def LONG_MAX_def)
  show "bug6_main always
        ''CREATE 0 10\<newline>CREATE 1 1\<newline>SPLICE 1 0 9223372036854775807 1\<newline>''
     = Inl SignedOverflow"
    by (simp add: clib_eval bug6_eval)
  show "splice_array_cpp alloc 1 0 9223372036854775807 1
       [\<lparr>data = Block (replicate 10 (Some 0)), size_a = 10, allocated = True\<rparr>,
        \<lparr>data = Block [Some 0], size_a = 1, allocated = True\<rparr>]
     = Inl SignedOverflow"
    by (simp add: splice_array_cpp_def ensure_capacity_cpp_def LONG_MAX_def)
  show "bug5_main always
        ''CREATE_ARRAY 0 10\<newline>CREATE_ARRAY 1 1\<newline>SPLICE_ARRAY 1 0 9223372036854775807 1\<newline>''
     = Inl SignedOverflow"
    by (simp add: clib_eval bug5_eval)
  show "bug5_main always
        ''CREATE_ARRAY 0 10\<newline>SPLICE_ARRAY 4611686018427387904 0 0 1\<newline>''
     = Inl UncaughtException"
    by (simp add: clib_eval bug5_eval)
qed

text \<open>
  The call of the failing input gets past every earlier test of \<open>splice_array\<close>: both
  indices are inside the table, both slots are allocated, and neither the offset nor the
  count is negative.
\<close>

theorem splice_overflow_not_rejected_witness:
  "unat (1 :: size_t) < length ((replicate 16 empty_slot)
       [0 := \<lparr>data = Block (replicate 10 (Some 0)), size_a = 10, allocated = True\<rparr>,
        1 := \<lparr>data = Block [Some 0], size_a = 1, allocated = True\<rparr>])
   \<and> allocated (((replicate 16 empty_slot)
       [0 := \<lparr>data = Block (replicate 10 (Some 0)), size_a = 10, allocated = True\<rparr>,
        1 := \<lparr>data = Block [Some 0], size_a = 1, allocated = True\<rparr>]) ! unat (1 :: size_t))
   \<and> allocated (((replicate 16 empty_slot)
       [0 := \<lparr>data = Block (replicate 10 (Some 0)), size_a = 10, allocated = True\<rparr>,
        1 := \<lparr>data = Block [Some 0], size_a = 1, allocated = True\<rparr>]) ! unat (0 :: size_t))
   \<and> 0 \<le> sint (9223372036854775807 :: long) \<and> 0 \<le> sint (1 :: long)
   \<and> splice_array always 1 0 9223372036854775807 1 ((replicate 16 empty_slot)
       [0 := \<lparr>data = Block (replicate 10 (Some 0)), size_a = 10, allocated = True\<rparr>,
        1 := \<lparr>data = Block [Some 0], size_a = 1, allocated = True\<rparr>])
     = Inl SignedOverflow
   \<and> splice_array_cpp always 1 0 9223372036854775807 1
       [\<lparr>data = Block (replicate 10 (Some 0)), size_a = 10, allocated = True\<rparr>,
        \<lparr>data = Block [Some 0], size_a = 1, allocated = True\<rparr>]
     = Inl SignedOverflow"
  using splice_overflow_not_rejected [where alloc = always] by simp

end
